theory Spec2Isabelle
  imports Main "HOL-Library.AList" "HOL-Library.Word"
begin

section \<open>Python values and exceptions\<close>

text \<open>
  \<^verbatim>\<open>main.py\<close> is an orchestration script: it threads a persisted key/value state
  (\<^verbatim>\<open>c3.state\<close>) and a working directory tree through calls to external collaborators
  (Pillow, the dataset generator, the training script). The embedding makes every effect
  explicit: a \<open>world\<close> record holds the state dictionary, the file system, what was
  printed and which subprocesses were started; an \<open>env\<close> record holds what the script
  takes from outside (the current working directory, its own directory, the collaborators);
  every function takes a world and returns an exception or a value together with the world
  it leaves.
\<close>

type_synonym bytes = "8 word list"

text \<open>The Python objects the script handles.\<close>

datatype pyval =
    PyNone
  | PyBool bool
  | PyInt int
  | PyStr string
  | PyBytes bytes
  | PyList "pyval list"

text \<open>
  Lines 8-11 bind four module-level exception instances; the others are the built-in
  exceptions the interpreter and \<^verbatim>\<open>os\<close>/\<^verbatim>\<open>open\<close> raise on the paths the script takes.
  \<open>Foreign\<close> is an exception raised inside an external collaborator (Pillow,
  \<^verbatim>\<open>gd.gen\<close>, \<^verbatim>\<open>subprocess.run\<close>); like every other constructor here it is an instance of
  \<^verbatim>\<open>Exception\<close>, which is what \<^verbatim>\<open>except Exception\<close> catches. Interpreter signals
  outside that class (\<^verbatim>\<open>KeyboardInterrupt\<close>, \<^verbatim>\<open>SystemExit\<close>) are not part of the model.
\<close>

datatype exn =
    PillowImageRequired
  | InvalidImage
  | C3Required
  | TrainingFailed
  | NameError string
  | TypeError
  | AttributeError
  | KeyError
  | IndexError
  | FileNotFoundError
  | FileExistsError
  | NotADirectoryError
  | IsADirectoryError
  | Foreign string

text \<open>\<^verbatim>\<open>str(err)\<close>, as \<^verbatim>\<open>print\<close> shows an exception.\<close>

fun str_exn :: "exn \<Rightarrow> string" where
  "str_exn PillowImageRequired = ''pillow image is required''"
| "str_exn InvalidImage = ''invalid image''"
| "str_exn C3Required = ''c3 cannot be None''"
| "str_exn TrainingFailed = ''model training failed''"
| "str_exn (NameError n) = ''name '' @ n @ '' is not defined''"
| "str_exn TypeError = ''TypeError''"
| "str_exn AttributeError = ''AttributeError''"
| "str_exn KeyError = ''KeyError''"
| "str_exn IndexError = ''IndexError''"
| "str_exn FileNotFoundError = ''No such file or directory''"
| "str_exn FileExistsError = ''File exists''"
| "str_exn NotADirectoryError = ''Not a directory''"
| "str_exn IsADirectoryError = ''Is a directory''"
| "str_exn (Foreign m) = m"

text \<open>Truth value testing, as \<^verbatim>\<open>not x\<close> applies it.\<close>

fun truthy :: "pyval \<Rightarrow> bool" where
  "truthy PyNone = False"
| "truthy (PyBool b) = b"
| "truthy (PyInt i) = (i \<noteq> 0)"
| "truthy (PyStr s) = (s \<noteq> [])"
| "truthy (PyBytes b) = (b \<noteq> [])"
| "truthy (PyList xs) = (xs \<noteq> [])"

text \<open>
  The binary \<^verbatim>\<open>+\<close>: defined between two values of the same sequence or number type, a
  \<^verbatim>\<open>TypeError\<close> otherwise (\<^verbatim>\<open>"a" + 1\<close> raises).
\<close>

fun py_add :: "pyval \<Rightarrow> pyval \<Rightarrow> exn + pyval" where
  "py_add (PyStr a) (PyStr b) = Inr (PyStr (a @ b))"
| "py_add (PyInt a) (PyInt b) = Inr (PyInt (a + b))"
| "py_add (PyBytes a) (PyBytes b) = Inr (PyBytes (a @ b))"
| "py_add (PyList a) (PyList b) = Inr (PyList (a @ b))"
| "py_add _ _ = Inl TypeError"

text \<open>\<^verbatim>\<open>len(x)\<close> and \<^verbatim>\<open>x[i]\<close> for a non-negative index.\<close>

fun py_len :: "pyval \<Rightarrow> exn + nat" where
  "py_len (PyStr s) = Inr (length s)"
| "py_len (PyBytes b) = Inr (length b)"
| "py_len (PyList xs) = Inr (length xs)"
| "py_len _ = Inl TypeError"

fun py_getitem :: "pyval \<Rightarrow> nat \<Rightarrow> exn + pyval" where
  "py_getitem (PyStr s) i = (if i < length s then Inr (PyStr [s ! i]) else Inl IndexError)"
| "py_getitem (PyBytes b) i = (if i < length b then Inr (PyInt (uint (b ! i))) else Inl IndexError)"
| "py_getitem (PyList xs) i = (if i < length xs then Inr (xs ! i) else Inl IndexError)"
| "py_getitem _ i = Inl TypeError"

section \<open>Paths\<close>

text \<open>
  Paths are Python strings, built by concatenation as in lines 13-26. The operating system
  reads a path as a list of components: \<open>split_path\<close> cuts at \<^verbatim>\<open>/\<close> and drops empty
  components, and \<open>resolve\<close> interprets a relative path from the current working
  directory. The paths of this script contain neither \<^verbatim>\<open>.\<close> nor \<^verbatim>\<open>..\<close>.
\<close>

definition sep :: string where
  "sep = ''/''"

fun components :: "string \<Rightarrow> string \<Rightarrow> string list" where
  "components acc [] = (if acc = [] then [] else [acc])"
| "components acc (c # cs) =
     (if c = CHR ''/'' then (if acc = [] then [] else [acc]) @ components [] cs
      else components (acc @ [c]) cs)"

definition split_path :: "string \<Rightarrow> string list" where
  "split_path p = components [] p"

definition is_abs :: "string \<Rightarrow> bool" where
  "is_abs p = (case p of [] \<Rightarrow> False | c # _ \<Rightarrow> c = CHR ''/'')"

definition resolve :: "string \<Rightarrow> string \<Rightarrow> string list" where
  "resolve wd p = (if is_abs p then split_path p else split_path wd @ split_path p)"

text \<open>\<^verbatim>\<open>os.path.join(a, b)\<close> for two arguments.\<close>

definition os_path_join :: "string \<Rightarrow> string \<Rightarrow> string" where
  "os_path_join a b =
     (if is_abs b then b
      else if a = [] \<or> last a = CHR ''/'' then a @ b
      else a @ sep @ b)"

text \<open>The substring test \<^verbatim>\<open>sub in s\<close> on strings.\<close>

fun starts_with :: "string \<Rightarrow> string \<Rightarrow> bool" where
  "starts_with [] s = True"
| "starts_with (a # as) [] = False"
| "starts_with (a # as) (c # cs) = (a = c \<and> starts_with as cs)"

fun contains :: "string \<Rightarrow> string \<Rightarrow> bool" where
  "contains sub [] = (sub = [])"
| "contains sub (c # cs) = (starts_with sub (c # cs) \<or> contains sub cs)"

subsection \<open>Module constants (lines 12-28)\<close>

text \<open>
  \<open>here\<close> stands for \<^verbatim>\<open>os.path.dirname(os.path.abspath(__file__))\<close>, the directory of
  \<^verbatim>\<open>main.py\<close>: an absolute path fixed when the module is loaded.
\<close>

definition standardImgFormat :: string where
  "standardImgFormat = ''JPEG''"

definition tmpDir :: string where
  "tmpDir = ''tmp''"

definition libDir :: string where
  "libDir = ''lib''"

definition inputRelPath :: string where
  "inputRelPath = tmpDir @ sep @ ''input''"

definition augRelPath :: string where
  "augRelPath = tmpDir @ sep @ ''aug_64x64''"

definition unaugRelPath :: string where
  "unaugRelPath = tmpDir @ sep @ ''unaug_64x64''"

definition networkRelPath :: string where
  "networkRelPath = tmpDir @ sep @ ''network''"

definition scriptFileRelPath :: string where
  "scriptFileRelPath = libDir @ sep @ ''eyescream'' @ sep @ ''train.lua''"

definition inputAbsPath :: "string \<Rightarrow> string" where
  "inputAbsPath here = here @ sep @ inputRelPath"

definition augAbsPath :: "string \<Rightarrow> string" where
  "augAbsPath here = here @ sep @ augRelPath"

definition unaugAbsPath :: "string \<Rightarrow> string" where
  "unaugAbsPath here = here @ sep @ unaugRelPath"

definition networkAbsPath :: "string \<Rightarrow> string" where
  "networkAbsPath here = here @ sep @ networkRelPath"

definition oldNetworkAbsPath :: "string \<Rightarrow> string" where
  "oldNetworkAbsPath here = networkAbsPath here @ sep @ ''old.net''"

definition newNetworkAbsPath :: "string \<Rightarrow> string" where
  "newNetworkAbsPath here = networkAbsPath here @ sep @ ''adversarial.net''"

definition scriptFileAbsPath :: "string \<Rightarrow> string" where
  "scriptFileAbsPath here = here @ sep @ scriptFileRelPath"

definition augImagesKey :: string where
  "augImagesKey = ''aug_images''"

definition networkKey :: string where
  "networkKey = ''network''"

text \<open>
  The names that lines 1-28 and the \<^verbatim>\<open>def\<close> statements bind in the module. A function body
  that reads any other global name (one that is not a built-in either) raises
  \<^verbatim>\<open>NameError\<close> when the read is executed. Every global the functions use is in this list,
  except \<^verbatim>\<open>subprocess\<close> on line 107: the file has no \<^verbatim>\<open>import subprocess\<close>.
\<close>

definition module_globals :: "string list" where
  "module_globals =
     [''sdk'', ''gd'', ''Image'', ''io'', ''os'', ''c3'',
      ''PillowImageRequired'', ''InvalidImage'', ''C3Required'', ''TrainingFailed'',
      ''standardImgFormat'', ''tmpDir'', ''libDir'',
      ''inputRelPath'', ''augRelPath'', ''unaugRelPath'', ''networkRelPath'',
      ''scriptFileRelPath'', ''inputAbsPath'', ''augAbsPath'', ''unaugAbsPath'',
      ''networkAbsPath'', ''oldNetworkAbsPath'', ''newNetworkAbsPath'',
      ''scriptFileAbsPath'', ''augImagesKey'', ''networkKey'',
      ''main'', ''initState'', ''writeBytesToFile'', ''readBytesFromFile'',
      ''imageFromBytes'', ''imageToBytes'', ''acceptImage'', ''gatherState'']"

section \<open>The file system\<close>

text \<open>
  A directory is the list of its entries, in the order in which a listing returns them;
  \<open>map_of\<close> finds an entry by name.
\<close>

datatype node = File bytes | Dir "(string \<times> node) list"

fun lookup :: "node \<Rightarrow> string list \<Rightarrow> node option" where
  "lookup n [] = Some n"
| "lookup (File b) (c # cs) = None"
| "lookup (Dir es) (c # cs) =
     (case map_of es c of None \<Rightarrow> None | Some n \<Rightarrow> lookup n cs)"

definition is_dir :: "node \<Rightarrow> string list \<Rightarrow> bool" where
  "is_dir n p = (case lookup n p of Some (Dir es) \<Rightarrow> True | _ \<Rightarrow> False)"

definition is_file :: "node \<Rightarrow> string list \<Rightarrow> bool" where
  "is_file n p = (case lookup n p of Some (File b) \<Rightarrow> True | _ \<Rightarrow> False)"

text \<open>
  \<^verbatim>\<open>os.makedirs(p)\<close> with \<^verbatim>\<open>exist_ok=False\<close>: walks down the existing part of the path,
  then creates the missing directories; fails if the whole path already exists or if a
  component on the way is a regular file.
\<close>

fun new_dirs :: "string list \<Rightarrow> node" where
  "new_dirs [] = Dir []"
| "new_dirs (c # cs) = Dir [(c, new_dirs cs)]"

fun makedirs :: "node \<Rightarrow> string list \<Rightarrow> exn + node" where
  "makedirs n [] = Inl FileExistsError"
| "makedirs (File b) (c # cs) = Inl NotADirectoryError"
| "makedirs (Dir es) (c # cs) =
     (case map_of es c of
        None \<Rightarrow> Inr (Dir (es @ [(c, new_dirs cs)]))
      | Some n \<Rightarrow>
          (case makedirs n cs of
             Inl e \<Rightarrow> Inl e
           | Inr n' \<Rightarrow> Inr (Dir (AList.update c n' es))))"

text \<open>
  Storing \<open>b\<close> as the content of the file at a path, as \<^verbatim>\<open>open(p, 'wb+')\<close> followed by
  writes and \<^verbatim>\<open>close\<close> leaves it: the file is created in an existing directory or
  replaced; the parent must exist and the path must not be a directory.
\<close>

fun write_node :: "node \<Rightarrow> string list \<Rightarrow> bytes \<Rightarrow> exn + node" where
  "write_node (File old) [] b = Inr (File b)"
| "write_node (Dir es) [] b = Inl IsADirectoryError"
| "write_node (File old) (c # cs) b = Inl NotADirectoryError"
| "write_node (Dir es) (c # cs) b =
     (case map_of es c of
        None \<Rightarrow> (if cs = [] then Inr (Dir (es @ [(c, File b)])) else Inl FileNotFoundError)
      | Some n \<Rightarrow>
          (case write_node n cs b of
             Inl e \<Rightarrow> Inl e
           | Inr n' \<Rightarrow> Inr (Dir (AList.update c n' es))))"

text \<open>\<^verbatim>\<open>open(p, 'rb+').read()\<close>: the file must exist.\<close>

fun read_node :: "node \<Rightarrow> string list \<Rightarrow> exn + bytes" where
  "read_node (File b) [] = Inr b"
| "read_node (Dir es) [] = Inl IsADirectoryError"
| "read_node (File b) (c # cs) = Inl NotADirectoryError"
| "read_node (Dir es) (c # cs) =
     (case map_of es c of None \<Rightarrow> Inl FileNotFoundError | Some n \<Rightarrow> read_node n cs)"

text \<open>
  \<^verbatim>\<open>os.walk(top)\<close>, top-down: for each directory the triple of its path, the names of its
  subdirectories and the names of its other entries, then the subdirectories in turn.
\<close>

fun dir_names :: "(string \<times> node) list \<Rightarrow> string list" where
  "dir_names [] = []"
| "dir_names ((n, Dir es) # rest) = n # dir_names rest"
| "dir_names ((n, File b) # rest) = dir_names rest"

fun file_names :: "(string \<times> node) list \<Rightarrow> string list" where
  "file_names [] = []"
| "file_names ((n, File b) # rest) = n # file_names rest"
| "file_names ((n, Dir es) # rest) = file_names rest"

fun walk :: "string \<Rightarrow> node \<Rightarrow> (string \<times> string list \<times> string list) list"
  and walk_entries :: "string \<Rightarrow> (string \<times> node) list \<Rightarrow> (string \<times> string list \<times> string list) list"
where
  "walk r (File b) = []"
| "walk r (Dir es) = (r, dir_names es, file_names es) # walk_entries r es"
| "walk_entries r [] = []"
| "walk_entries r ((n, sub) # rest) = walk (os_path_join r n) sub @ walk_entries r rest"

section \<open>The world and the external collaborators\<close>

text \<open>
  An image handle is opaque: the script only calls \<^verbatim>\<open>verify()\<close>, which returns an object
  or raises, and \<^verbatim>\<open>save(fp, format)\<close>, which encodes the image for a file name and an
  optional format and writes the bytes to the file, or raises.
\<close>

record image =
  verify :: "string + pyval"
  save :: "string \<Rightarrow> string option \<Rightarrow> string + bytes"

text \<open>
  The process environment and the collaborators that \<^verbatim>\<open>main.py\<close> calls but does not
  define: the current working directory, the directory of \<^verbatim>\<open>main.py\<close>,
  \<^verbatim>\<open>PIL.Image.open\<close>, the dataset generator \<^verbatim>\<open>gd.gen\<close>, which may change the file
  system in any way or raise, and the program that \<^verbatim>\<open>subprocess.run\<close> would start, which
  may change the file system and exits with a return code or cannot be started.
\<close>

record env =
  cwd :: string
  here :: string
  Image_open :: "pyval \<Rightarrow> string + image"
  gd_gen :: "string \<Rightarrow> string \<Rightarrow> string \<Rightarrow> node \<Rightarrow> (string + unit) \<times> node"
  subprocess_run :: "string list \<Rightarrow> node \<Rightarrow> (string + int) \<times> node"

text \<open>
  \<open>c3\<close> is the module-level handle: \<open>None\<close> until \<^verbatim>\<open>sdk.NewC3()\<close> has run, then the
  dictionary \<^verbatim>\<open>c3.state\<close>. \<open>spawned\<close> records the argument vector of every subprocess
  started, \<open>stdout\<close> every line printed.
\<close>

record world =
  c3 :: "(string \<rightharpoonup> pyval) option"
  disk :: node
  stdout :: "string list"
  spawned :: "string list list"

type_synonym 'a action = "world \<Rightarrow> (exn + 'a) \<times> world"

definition seq :: "'a action \<Rightarrow> ('a \<Rightarrow> 'b action) \<Rightarrow> 'b action" where
  "seq m f w = (case m w of (Inl e, w1) \<Rightarrow> (Inl e, w1) | (Inr x, w1) \<Rightarrow> f x w1)"

definition skip :: "unit action" where
  "skip w = (Inr (), w)"

definition raise :: "exn \<Rightarrow> 'a action" where
  "raise e w = (Inl e, w)"

definition lift :: "exn + 'a \<Rightarrow> 'a action" where
  "lift r w = (r, w)"

definition print :: "string \<Rightarrow> unit action" where
  "print s w = (Inr (), w\<lparr>stdout := stdout w @ [s]\<rparr>)"

definition global_name :: "string \<Rightarrow> unit action" where
  "global_name n = (if n \<in> set module_globals then skip else raise (NameError n))"

subsection \<open>\<^verbatim>\<open>c3.state\<close>\<close>

definition state_has :: "string \<Rightarrow> bool action" where
  "state_has k w =
     (case c3 w of None \<Rightarrow> (Inl AttributeError, w) | Some st \<Rightarrow> (Inr (k \<in> dom st), w))"

definition state_get :: "string \<Rightarrow> pyval action" where
  "state_get k w =
     (case c3 w of
        None \<Rightarrow> (Inl AttributeError, w)
      | Some st \<Rightarrow> (case st k of None \<Rightarrow> (Inl KeyError, w) | Some v \<Rightarrow> (Inr v, w)))"

definition state_set :: "string \<Rightarrow> pyval \<Rightarrow> unit action" where
  "state_set k v w =
     (case c3 w of
        None \<Rightarrow> (Inl AttributeError, w)
      | Some st \<Rightarrow> (Inr (), w\<lparr>c3 := Some (st(k \<mapsto> v))\<rparr>))"

text \<open>\<^verbatim>\<open>c3.state[k].append(v)\<close>\<close>

definition state_append :: "string \<Rightarrow> pyval \<Rightarrow> unit action" where
  "state_append k v w =
     (case c3 w of
        None \<Rightarrow> (Inl AttributeError, w)
      | Some st \<Rightarrow>
          (case st k of
             None \<Rightarrow> (Inl KeyError, w)
           | Some (PyList xs) \<Rightarrow> (Inr (), w\<lparr>c3 := Some (st(k \<mapsto> PyList (xs @ [v])))\<rparr>)
           | Some _ \<Rightarrow> (Inl AttributeError, w)))"

subsection \<open>Files\<close>

definition os_path_exists :: "env \<Rightarrow> string \<Rightarrow> bool action" where
  "os_path_exists E p w = (Inr (lookup (disk w) (resolve (cwd E) p) \<noteq> None), w)"

definition os_makedirs :: "env \<Rightarrow> string \<Rightarrow> unit action" where
  "os_makedirs E p w =
     (case makedirs (disk w) (resolve (cwd E) p) of
        Inl e \<Rightarrow> (Inl e, w)
      | Inr n \<Rightarrow> (Inr (), w\<lparr>disk := n\<rparr>))"

definition store_file :: "env \<Rightarrow> string \<Rightarrow> bytes \<Rightarrow> unit action" where
  "store_file E p b w =
     (case write_node (disk w) (resolve (cwd E) p) b of
        Inl e \<Rightarrow> (Inl e, w)
      | Inr n \<Rightarrow> (Inr (), w\<lparr>disk := n\<rparr>))"

text \<open>
  Lines 64-67. \<^verbatim>\<open>open(fileName, 'wb+')\<close> creates or truncates the file; \<^verbatim>\<open>f.write(b)\<close>
  takes a bytes-like object and raises \<^verbatim>\<open>TypeError\<close> for anything else, after the file
  has been truncated.
\<close>

definition writeBytesToFile :: "env \<Rightarrow> pyval \<Rightarrow> string \<Rightarrow> unit action" where
  "writeBytesToFile E b fileName =
     seq (store_file E fileName [])
       (\<lambda>_. case b of PyBytes bs \<Rightarrow> store_file E fileName bs | _ \<Rightarrow> raise TypeError)"

text \<open>Lines 70-71.\<close>

definition readBytesFromFile :: "env \<Rightarrow> string \<Rightarrow> bytes action" where
  "readBytesFromFile E filename w = (read_node (disk w) (resolve (cwd E) filename), w)"

text \<open>Lines 73-75.\<close>

definition imageFromBytes :: "env \<Rightarrow> pyval \<Rightarrow> image action" where
  "imageFromBytes E b w =
     (case Image_open E b of Inl m \<Rightarrow> (Inl (Foreign m), w) | Inr im \<Rightarrow> (Inr im, w))"

text \<open>\<^verbatim>\<open>img.save(fp, format=fmt)\<close>\<close>

definition image_save :: "env \<Rightarrow> image \<Rightarrow> string \<Rightarrow> string option \<Rightarrow> unit action" where
  "image_save E img fp fmt w =
     (case save img fp fmt of
        Inl m \<Rightarrow> (Inl (Foreign m), w)
      | Inr bs \<Rightarrow> store_file E fp bs w)"

definition os_walk :: "env \<Rightarrow> string \<Rightarrow> (string \<times> string list \<times> string list) list action" where
  "os_walk E start w =
     (case lookup (disk w) (resolve (cwd E) start) of
        Some (Dir es) \<Rightarrow> (Inr (walk start (Dir es)), w)
      | _ \<Rightarrow> (Inr [], w))"

subsection \<open>Calls to the collaborators\<close>

definition call_gd_gen :: "env \<Rightarrow> string \<Rightarrow> string \<Rightarrow> string \<Rightarrow> unit action" where
  "call_gd_gen E a b c w =
     (case gd_gen E a b c (disk w) of
        (Inl m, n) \<Rightarrow> (Inl (Foreign m), w\<lparr>disk := n\<rparr>)
      | (Inr u, n) \<Rightarrow> (Inr (), w\<lparr>disk := n\<rparr>))"

definition call_subprocess_run :: "env \<Rightarrow> string list \<Rightarrow> int action" where
  "call_subprocess_run E args w =
     (case subprocess_run E args (disk w) of
        (Inl m, n) \<Rightarrow> (Inl (Foreign m), w\<lparr>disk := n, spawned := spawned w @ [args]\<rparr>)
      | (Inr rc, n) \<Rightarrow> (Inr rc, w\<lparr>disk := n, spawned := spawned w @ [args]\<rparr>))"

section \<open>\<^verbatim>\<open>initState\<close> (lines 37-62)\<close>

text \<open>
  The body of the loop of lines 53-56 for one index. The file name of line 56 is
  \<^verbatim>\<open>augAbsPath + os.path.sep + idx + standardImgFormat\<close>, evaluated left to right, with
  \<^verbatim>\<open>idx\<close> the integer that \<^verbatim>\<open>range\<close> yields; \<^verbatim>\<open>save\<close> is called without a format.
\<close>

definition rehydrate_one :: "env \<Rightarrow> nat \<Rightarrow> unit action" where
  "rehydrate_one E idx =
     seq (state_get augImagesKey) (\<lambda>xs.
     seq (lift (py_getitem xs idx)) (\<lambda>b.
     seq (imageFromBytes E b) (\<lambda>im.
     seq (lift (py_add (PyStr (augAbsPath (here E))) (PyStr sep))) (\<lambda>s1.
     seq (lift (py_add s1 (PyInt (int idx)))) (\<lambda>s2.
     seq (lift (py_add s2 (PyStr standardImgFormat))) (\<lambda>fp.
       case fp of PyStr name \<Rightarrow> image_save E im name None | _ \<Rightarrow> raise TypeError))))))"

fun rehydrate :: "env \<Rightarrow> nat list \<Rightarrow> unit action" where
  "rehydrate E [] w = (Inr (), w)"
| "rehydrate E (idx # rest) w =
     (case rehydrate_one E idx w of
        (Inl e, w1) \<Rightarrow> (Inl e, w1)
      | (Inr u, w1) \<Rightarrow> rehydrate E rest w1)"

definition initState :: "env \<Rightarrow> unit action" where
  "initState E w =
     (case c3 w of
        None \<Rightarrow> seq (print ''c3 is none'') (\<lambda>_. raise C3Required) w
      | Some st \<Rightarrow>
         (seq (os_path_exists E inputRelPath) (\<lambda>ex.
          seq (if \<not> ex then os_makedirs E inputRelPath else skip) (\<lambda>_.
          seq (os_path_exists E augRelPath) (\<lambda>ex.
          seq (if \<not> ex then os_makedirs E augRelPath else skip) (\<lambda>_.
          seq (os_path_exists E unaugRelPath) (\<lambda>ex.
          seq (if \<not> ex then os_makedirs E unaugRelPath else skip) (\<lambda>_.
          seq (os_path_exists E networkRelPath) (\<lambda>ex.
          seq (if \<not> ex then os_makedirs E networkRelPath else skip) (\<lambda>_.
          seq (state_has augImagesKey) (\<lambda>present.
          seq (if present
               then seq (state_get augImagesKey) (\<lambda>xs.
                    seq (lift (py_len xs)) (\<lambda>n. rehydrate E [0..<n]))
               else skip) (\<lambda>_.
          seq (state_has networkKey) (\<lambda>present.
          seq (if present then state_get networkKey else lift (Inr (PyBytes []))) (\<lambda>network.
            writeBytesToFile E network (oldNetworkAbsPath (here E))))))))))))))) w)"

section \<open>\<^verbatim>\<open>gatherState\<close> (lines 114-123)\<close>

fun gather_files :: "env \<Rightarrow> string \<Rightarrow> string list \<Rightarrow> unit action" where
  "gather_files E r [] w = (Inr (), w)"
| "gather_files E r (file # rest) w =
     (if contains (''.'' @ standardImgFormat) file
      then (case seq (readBytesFromFile E (os_path_join r file))
                   (\<lambda>b. state_append augImagesKey (PyBytes b)) w of
              (Inl e, w1) \<Rightarrow> (Inl e, w1)
            | (Inr u, w1) \<Rightarrow> gather_files E r rest w1)
      else gather_files E r rest w)"

fun gather_walk :: "env \<Rightarrow> (string \<times> string list \<times> string list) list \<Rightarrow> unit action" where
  "gather_walk E [] w = (Inr (), w)"
| "gather_walk E ((r, d, f) # rest) w =
     (case gather_files E r f w of
        (Inl e, w1) \<Rightarrow> (Inl e, w1)
      | (Inr u, w1) \<Rightarrow> gather_walk E rest w1)"

definition gatherState :: "env \<Rightarrow> unit action" where
  "gatherState E =
     seq (readBytesFromFile E (newNetworkAbsPath (here E))) (\<lambda>net.
     seq (state_set networkKey (PyBytes net)) (\<lambda>_.
     seq (state_set augImagesKey (PyList [])) (\<lambda>_.
     seq (os_walk E (augAbsPath (here E))) (\<lambda>triples.
       gather_walk E triples))))"

section \<open>\<^verbatim>\<open>acceptImage\<close> (lines 85-112)\<close>

text \<open>The body of the \<^verbatim>\<open>try\<close> of lines 90-93.\<close>

definition verify_block :: "image \<Rightarrow> unit action" where
  "verify_block img =
     (case verify img of
        Inl m \<Rightarrow> raise (Foreign m)
      | Inr v \<Rightarrow>
          (if \<not> truthy v
           then seq (print ''image failed to verify'') (\<lambda>_. raise InvalidImage)
           else skip))"

text \<open>
  Lines 99-112, reached when the \<^verbatim>\<open>try\<close> block ends without an exception. On line 107 the
  name \<^verbatim>\<open>subprocess\<close> is read before the call is made.
\<close>

definition train_and_gather :: "env \<Rightarrow> image \<Rightarrow> unit action" where
  "train_and_gather E img =
     seq (image_save E img
            (inputAbsPath (here E) @ sep @ ''input.'' @ standardImgFormat)
            (Some standardImgFormat)) (\<lambda>_.
     seq (call_gd_gen E (inputAbsPath (here E)) (augAbsPath (here E)) (unaugAbsPath (here E))) (\<lambda>_.
     seq (global_name ''subprocess'') (\<lambda>_.
     seq (call_subprocess_run E
            [scriptFileAbsPath (here E), ''--network'', oldNetworkAbsPath (here E),
             ''--save'', networkAbsPath (here E)]) (\<lambda>returncode.
     seq (if returncode \<noteq> 0
          then seq (print ''Preprocess failed:  None'') (\<lambda>_. raise TrainingFailed)
          else skip) (\<lambda>_.
       gatherState E)))))"

definition acceptImage :: "env \<Rightarrow> image option \<Rightarrow> unit action" where
  "acceptImage E img w =
     (case img of
        None \<Rightarrow> seq (print ''pillow image is required'') (\<lambda>_. raise PillowImageRequired) w
      | Some im \<Rightarrow>
          (case verify_block im w of
             (Inl err, w1) \<Rightarrow>
               seq (print (''invalid img '' @ str_exn err)) (\<lambda>_. raise InvalidImage) w1
           | (Inr u, w1) \<Rightarrow> train_and_gather E im w1))"

section \<open>The phases of \<^verbatim>\<open>initState\<close>\<close>

text \<open>
  For the proofs, the body of \<^verbatim>\<open>initState\<close> is read as three kinds of step: one
  create-if-absent block per working directory (lines 43-50), the loop over
  \<^verbatim>\<open>aug_images\<close> (lines 52-56) and the write of the old network (lines 58-62).
  Lemma \<open>initState_phases\<close> below shows that \<open>initState\<close> is exactly their sequence.
\<close>

definition ensure_dir :: "env \<Rightarrow> string \<Rightarrow> unit action" where
  "ensure_dir E p =
     seq (os_path_exists E p) (\<lambda>ex. if \<not> ex then os_makedirs E p else skip)"

definition rehydrate_all :: "env \<Rightarrow> unit action" where
  "rehydrate_all E =
     seq (state_has augImagesKey) (\<lambda>present.
       if present
       then seq (state_get augImagesKey) (\<lambda>xs.
            seq (lift (py_len xs)) (\<lambda>n. rehydrate E [0..<n]))
       else skip)"

definition write_old_network :: "env \<Rightarrow> unit action" where
  "write_old_network E =
     seq (state_has networkKey) (\<lambda>present.
     seq (if present then state_get networkKey else lift (Inr (PyBytes [])))
       (\<lambda>network. writeBytesToFile E network (oldNetworkAbsPath (here E))))"

text \<open>The four paths that lines 43-50 test and create.\<close>

definition working_dirs :: "string list" where
  "working_dirs = [inputRelPath, augRelPath, unaugRelPath, networkRelPath]"

section \<open>Concrete inputs\<close>

text \<open>
  An installation in \<^verbatim>\<open>/app\<close>. \<open>ex_image\<close> is a handle whose \<^verbatim>\<open>verify()\<close> returns
  \<^verbatim>\<open>True\<close>; \<open>ex_pil_image\<close> behaves as a Pillow image does, whose \<^verbatim>\<open>verify()\<close>
  returns \<^verbatim>\<open>None\<close> on success; the \<^verbatim>\<open>verify()\<close> of \<open>ex_broken_image\<close> raises.
  In \<open>ex_env wd rc\<close> the process runs in directory \<open>wd\<close>, the dataset generator does
  nothing and the training script exits with \<open>rc\<close>.
\<close>

definition ex_image :: image where
  "ex_image = \<lparr>verify = Inr (PyBool True), save = (\<lambda>fp fmt. Inr [0xFF, 0xD8, 0xFF, 0xD9])\<rparr>"

definition ex_pil_image :: image where
  "ex_pil_image = \<lparr>verify = Inr PyNone, save = (\<lambda>fp fmt. Inr [0xFF, 0xD8, 0xFF, 0xD9])\<rparr>"

definition ex_broken_image :: image where
  "ex_broken_image =
     \<lparr>verify = Inl ''cannot identify image file'', save = (\<lambda>fp fmt. Inl ''not loaded'')\<rparr>"

definition ex_env :: "string \<Rightarrow> int \<Rightarrow> env" where
  "ex_env wd rc =
     \<lparr>cwd = wd, here = ''/app'',
      Image_open = (\<lambda>b. Inr ex_image),
      gd_gen = (\<lambda>a b c n. (Inr (), n)),
      subprocess_run = (\<lambda>args n. (Inr rc, n))\<rparr>"

text \<open>A complete working tree under \<^verbatim>\<open>/app/tmp\<close>, with the given augmented images.\<close>

definition ex_disk :: "(string \<times> node) list \<Rightarrow> node" where
  "ex_disk aug =
     Dir [(''app'', Dir [(''tmp'', Dir
       [(''input'', Dir []),
        (''aug_64x64'', Dir aug),
        (''unaug_64x64'', Dir []),
        (''network'', Dir [(''old.net'', File []), (''adversarial.net'', File [1, 2, 3])])])])]"

text \<open>A tree in which a regular file sits at \<^verbatim>\<open>/app/tmp/input\<close>.\<close>

definition ex_disk_squatted :: node where
  "ex_disk_squatted = Dir [(''app'', Dir [(''tmp'', Dir [(''input'', File [])])])]"

text \<open>An installation with no working tree yet, and a second directory to run from.\<close>

definition ex_disk_fresh :: node where
  "ex_disk_fresh = Dir [(''app'', Dir [(''tmp'', Dir [(''network'', Dir [])])]), (''srv'', Dir [])]"

text \<open>An installation without a working tree.\<close>

definition ex_disk_bare :: node where
  "ex_disk_bare = Dir [(''app'', Dir []), (''srv'', Dir [])]"

text \<open>
  A tree with a complete working tree under \<^verbatim>\<open>/app/tmp\<close> and another, with different
  content, under \<^verbatim>\<open>/srv/tmp\<close>.
\<close>

definition ex_disk_two :: node where
  "ex_disk_two =
     Dir [(''app'', Dir [(''tmp'', Dir
            [(''input'', Dir []),
             (''aug_64x64'', Dir [(''a.JPEG'', File [7])]),
             (''unaug_64x64'', Dir []),
             (''network'', Dir [(''old.net'', File []), (''adversarial.net'', File [1, 2, 3])])])]),
          (''srv'', Dir [(''tmp'', Dir
            [(''input'', Dir []),
             (''aug_64x64'', Dir [(''z.JPEG'', File [9])]),
             (''network'', Dir [(''adversarial.net'', File [4])])])])]"

definition ex_world :: "(string \<rightharpoonup> pyval) \<Rightarrow> node \<Rightarrow> world" where
  "ex_world st d = \<lparr>c3 = Some st, disk = d, stdout = [], spawned = []\<rparr>"

section \<open>Properties of the file system operations\<close>

text \<open>
  What creating directories and storing a file do to the rest of the tree: the path they
  act on ends up a directory (a file with the stored content), directories stay
  directories, files stay files, and \<open>makedirs\<close> neither creates nor changes a file.
\<close>

lemma map_of_snoc_fresh:
  "map_of es c = None \<Longrightarrow> map_of (es @ [(c, x)]) d = (if d = c then Some x else map_of es d)"
  by (simp add: map_add_def split: option.splits)

lemma lookup_new_dirs: "lookup (new_dirs cs) cs = Some (Dir [])"
  by (induction cs) auto

lemma lookup_new_dirs_no_file: "lookup (new_dirs cs) q \<noteq> Some (File b)"
  by (induction cs arbitrary: q) (case_tac q; auto split: if_splits)+

lemma is_dir_simps:
  "is_dir n [] = (\<exists>es. n = Dir es)"
  "is_dir (File b) (c # cs) = False"
  "is_dir (Dir es) (c # cs) = (case map_of es c of None \<Rightarrow> False | Some m \<Rightarrow> is_dir m cs)"
  by (auto simp: is_dir_def split: option.splits node.splits)

lemma is_file_simps:
  "is_file n [] = (\<exists>b. n = File b)"
  "is_file (File b) (c # cs) = False"
  "is_file (Dir es) (c # cs) = (case map_of es c of None \<Rightarrow> False | Some m \<Rightarrow> is_file m cs)"
  by (auto simp: is_file_def split: option.splits node.splits)

lemma is_dir_new_dirs: "is_dir (new_dirs cs) cs"
  by (induction cs) (auto simp: is_dir_simps)

lemma makedirs_is_dir: "makedirs n p = Inr n' \<Longrightarrow> is_dir n' p"
proof (induction n p arbitrary: n' rule: makedirs.induct)
  case (3 es c cs)
  then show ?case
    by (auto simp: is_dir_simps is_dir_new_dirs map_of_snoc_fresh update_conv'
          split: option.splits sum.splits)
qed simp_all

lemma makedirs_keeps_dir:
  "makedirs n p = Inr n' \<Longrightarrow> is_dir n q \<Longrightarrow> is_dir n' q"
proof (induction n p arbitrary: n' q rule: makedirs.induct)
  case (3 es c cs)
  show ?case
  proof (cases q)
    case Nil
    with 3 show ?thesis by (auto simp: is_dir_simps split: option.splits sum.splits)
  next
    case (Cons d ds)
    with 3 show ?thesis
      by (auto simp: is_dir_simps map_of_snoc_fresh update_conv'
          split: option.splits sum.splits if_splits node.splits)
  qed
qed simp_all

lemma makedirs_keeps_file:
  "makedirs n p = Inr n' \<Longrightarrow> lookup n q = Some (File b) \<Longrightarrow> lookup n' q = Some (File b)"
proof (induction n p arbitrary: n' q rule: makedirs.induct)
  case (3 es c cs)
  show ?case
  proof (cases q)
    case Nil
    with 3 show ?thesis by (auto split: option.splits sum.splits)
  next
    case (Cons d ds)
    with 3 show ?thesis
      by (auto simp: map_of_snoc_fresh update_conv'
          split: option.splits sum.splits if_splits)
  qed
qed simp_all

lemma makedirs_no_new_file:
  "makedirs n p = Inr n' \<Longrightarrow> lookup n' q = Some (File b) \<Longrightarrow> lookup n q = Some (File b)"
proof (induction n p arbitrary: n' q rule: makedirs.induct)
  case (3 es c cs)
  show ?case
  proof (cases q)
    case Nil
    with 3 show ?thesis by (auto split: option.splits sum.splits)
  next
    case (Cons d ds)
    with 3 show ?thesis
      by (auto simp: map_of_snoc_fresh update_conv' lookup_new_dirs_no_file
          split: option.splits sum.splits if_splits)
  qed
qed simp_all

lemma write_node_stored: "write_node n p b = Inr n' \<Longrightarrow> lookup n' p = Some (File b)"
proof (induction n p b arbitrary: n' rule: write_node.induct)
  case (4 es c cs b)
  then show ?case
    by (auto simp: map_of_snoc_fresh update_conv' split: option.splits sum.splits if_splits)
qed auto

lemma write_node_keeps_dir:
  "write_node n p b = Inr n' \<Longrightarrow> is_dir n q \<Longrightarrow> is_dir n' q"
proof (induction n p b arbitrary: n' q rule: write_node.induct)
  case (4 es c cs b)
  show ?case
  proof (cases q)
    case Nil
    with 4 show ?thesis by (auto simp: is_dir_simps split: option.splits sum.splits if_splits)
  next
    case (Cons d ds)
    with 4 show ?thesis
      by (auto simp: is_dir_simps map_of_snoc_fresh update_conv'
          split: option.splits sum.splits if_splits node.splits)
  qed
next
  case (1 old b)
  then show ?case by (cases q) (auto simp: is_dir_simps)
qed auto

lemma write_node_keeps_file:
  "write_node n p b = Inr n' \<Longrightarrow> is_file n q \<Longrightarrow> is_file n' q"
proof (induction n p b arbitrary: n' q rule: write_node.induct)
  case (4 es c cs b)
  show ?case
  proof (cases q)
    case Nil
    with 4 show ?thesis by (auto simp: is_file_simps split: option.splits sum.splits if_splits)
  next
    case (Cons d ds)
    with 4 show ?thesis
      by (auto simp: is_file_simps map_of_snoc_fresh update_conv'
          split: option.splits sum.splits if_splits node.splits)
  qed
next
  case (1 old b)
  then show ?case by (cases q) (auto simp: is_file_simps)
qed auto




section \<open>Properties of the operations of \<^verbatim>\<open>main.py\<close>\<close>

lemma write_node_error:
  "write_node n p b = Inl e \<Longrightarrow>
     e = IsADirectoryError \<or> e = NotADirectoryError \<or> e = FileNotFoundError"
  by (induction n p b rule: write_node.induct) (auto split: option.splits if_splits sum.splits)

lemma exists_iff: "lookup n p \<noteq> None \<longleftrightarrow> is_dir n p \<or> is_file n p"
  by (auto simp: is_dir_def is_file_def split: option.splits node.splits)

lemma rehydrate_one_raises: "\<exists>e. rehydrate_one E idx w = (Inl e, w)"
  by (auto simp: rehydrate_one_def seq_def state_get_def lift_def imageFromBytes_def
        split: option.splits sum.splits)

lemma rehydrate_Inr: "rehydrate E idxs w = (Inr u, w') \<Longrightarrow> idxs = [] \<and> w' = w"
proof (cases idxs)
  case (Cons i rest)
  assume "rehydrate E idxs w = (Inr u, w')"
  with Cons rehydrate_one_raises [of E i w] show ?thesis by auto
qed simp

lemma write_step:
  assumes "seq (state_has networkKey) (\<lambda>present.
           seq (if present then state_get networkKey else lift (Inr (PyBytes [])))
             (\<lambda>network. writeBytesToFile E network p)) w = (Inr y, w')"
    and "c3 w = Some st"
  shows "\<exists>bs n5.
      write_node (disk w) (resolve (cwd E) p) [] = Inr n5
      \<and> write_node n5 (resolve (cwd E) p) bs = Inr (disk w')
      \<and> w' = w\<lparr>disk := disk w'\<rparr>
      \<and> (st networkKey = None \<and> bs = [] \<or> st networkKey = Some (PyBytes bs))"
  using assms
  by (auto simp: seq_def state_has_def state_get_def lift_def writeBytesToFile_def
        store_file_def raise_def
        split: option.splits if_splits sum.splits prod.splits pyval.splits)

lemma seq_assoc: "seq (seq m f) g = seq m (\<lambda>x. seq (f x) g)"
  by (rule ext) (simp add: seq_def split: prod.splits sum.splits)

lemma initState_phases:
  "initState E w =
     (case c3 w of
        None \<Rightarrow> (Inl C3Required, w\<lparr>stdout := stdout w @ [''c3 is none'']\<rparr>)
      | Some st \<Rightarrow>
          seq (ensure_dir E inputRelPath) (\<lambda>_.
          seq (ensure_dir E augRelPath) (\<lambda>_.
          seq (ensure_dir E unaugRelPath) (\<lambda>_.
          seq (ensure_dir E networkRelPath) (\<lambda>_.
          seq (rehydrate_all E) (\<lambda>_. write_old_network E))))) w)"
  by (simp add: initState_def ensure_dir_def rehydrate_all_def write_old_network_def
        seq_assoc split: option.splits)
    (simp add: seq_def print_def raise_def)

lemma ensure_dir_eq:
  "ensure_dir E p w =
     (if lookup (disk w) (resolve (cwd E) p) \<noteq> None then (Inr (), w)
      else (case makedirs (disk w) (resolve (cwd E) p) of
              Inl e \<Rightarrow> (Inl e, w)
            | Inr n \<Rightarrow> (Inr (), w\<lparr>disk := n\<rparr>)))"
  by (simp add: ensure_dir_def seq_def os_path_exists_def os_makedirs_def skip_def)

lemma rehydrate_all_Inr:
  assumes "rehydrate_all E w = (Inr u, w1)"
  shows "w1 = w" and "c3 w2 = c3 w \<Longrightarrow> rehydrate_all E w2 = (Inr (), w2)"
  using assms
  by (auto simp: rehydrate_all_def seq_def state_has_def state_get_def lift_def skip_def
        split: option.splits if_splits sum.splits prod.splits dest!: rehydrate_Inr)

lemma write_old_network_Inr:
  assumes "write_old_network E w = (Inr u, w')" and "c3 w = Some st"
  shows "\<exists>bs n5.
      write_node (disk w) (resolve (cwd E) (oldNetworkAbsPath (here E))) [] = Inr n5
      \<and> write_node n5 (resolve (cwd E) (oldNetworkAbsPath (here E))) bs = Inr (disk w')
      \<and> w' = w\<lparr>disk := disk w'\<rparr>
      \<and> (st networkKey = None \<and> bs = [] \<or> st networkKey = Some (PyBytes bs))"
  using assms unfolding write_old_network_def by (rule write_step)




lemma makedirs_keeps_is_file: "makedirs n p = Inr n' \<Longrightarrow> is_file n q \<Longrightarrow> is_file n' q"
  by (auto simp: is_file_def split: option.splits node.splits dest: makedirs_keeps_file)

lemma makedirs_no_new_is_file: "makedirs n p = Inr n' \<Longrightarrow> is_file n' q \<Longrightarrow> is_file n q"
  by (auto simp: is_file_def split: option.splits node.splits dest: makedirs_no_new_file)

lemma is_dir_lookup: "is_dir n p \<Longrightarrow> lookup n p \<noteq> None"
  by (auto simp: is_dir_def split: option.splits)

lemma present_not_file: "lookup n p \<noteq> None \<Longrightarrow> \<not> is_file n p \<Longrightarrow> is_dir n p"
  by (auto simp: is_dir_def is_file_def split: option.splits node.splits)

lemma seq_InrD:
  "seq m f w = (Inr y, w') \<Longrightarrow> \<exists>x w1. m w = (Inr x, w1) \<and> f x w1 = (Inr y, w')"
  by (auto simp: seq_def split: prod.splits sum.splits)

lemma ensure_dir_Inr:
  assumes "ensure_dir E p w = (Inr u, w1)"
  shows "c3 w1 = c3 w"
    and "lookup (disk w1) (resolve (cwd E) p) \<noteq> None"
    and "\<not> is_file (disk w) (resolve (cwd E) p) \<Longrightarrow> is_dir (disk w1) (resolve (cwd E) p)"
    and "is_dir (disk w) q \<Longrightarrow> is_dir (disk w1) q"
    and "is_file (disk w) q \<Longrightarrow> is_file (disk w1) q"
    and "is_file (disk w1) q \<Longrightarrow> is_file (disk w) q"
proof -
  show "c3 w1 = c3 w"
    using assms by (auto simp: ensure_dir_eq split: if_splits sum.splits)
  show "lookup (disk w1) (resolve (cwd E) p) \<noteq> None"
    using assms
    by (auto simp: ensure_dir_eq split: if_splits sum.splits dest!: makedirs_is_dir is_dir_lookup)
  show "is_dir (disk w1) (resolve (cwd E) p)" if "\<not> is_file (disk w) (resolve (cwd E) p)"
  proof (cases "lookup (disk w) (resolve (cwd E) p) = None")
    case True
    with assms show ?thesis
      by (auto simp: ensure_dir_eq split: sum.splits dest: makedirs_is_dir)
  next
    case False
    with assms have "w1 = w" by (simp add: ensure_dir_eq)
    with False that show ?thesis by (simp add: present_not_file)
  qed
  show "is_dir (disk w1) q" if "is_dir (disk w) q"
    using assms that
    by (auto simp: ensure_dir_eq split: if_splits sum.splits dest: makedirs_keeps_dir)
  show "is_file (disk w1) q" if "is_file (disk w) q"
    using assms that
    by (auto simp: ensure_dir_eq split: if_splits sum.splits dest: makedirs_keeps_is_file)
  show "is_file (disk w) q" if "is_file (disk w1) q"
    using assms that
    by (auto simp: ensure_dir_eq split: if_splits sum.splits dest: makedirs_no_new_is_file)
qed

lemma ensure_dir_keeps_exists:
  "ensure_dir E p w = (Inr u, w1) \<Longrightarrow> lookup (disk w) q \<noteq> None \<Longrightarrow> lookup (disk w1) q \<noteq> None"
  unfolding exists_iff by (blast dest: ensure_dir_Inr(4,5))


lemma write_old_network_facts:
  assumes "write_old_network E w = (Inr u, w')" and "c3 w = Some st"
  shows "c3 w' = c3 w"
    and "is_dir (disk w) q \<Longrightarrow> is_dir (disk w') q"
    and "is_file (disk w) q \<Longrightarrow> is_file (disk w') q"
    and "\<exists>bs. (st networkKey = None \<and> bs = [] \<or> st networkKey = Some (PyBytes bs))
          \<and> lookup (disk w') (resolve (cwd E) (oldNetworkAbsPath (here E))) = Some (File bs)"
proof -
  let ?p = "resolve (cwd E) (oldNetworkAbsPath (here E))"
  from write_old_network_Inr [OF assms] obtain bs n5 where
    t: "write_node (disk w) ?p [] = Inr n5" and
    s: "write_node n5 ?p bs = Inr (disk w')" and
    w': "w' = w\<lparr>disk := disk w'\<rparr>" and
    net: "st networkKey = None \<and> bs = [] \<or> st networkKey = Some (PyBytes bs)"
    by blast
  show "c3 w' = c3 w" by (subst w') simp
  show "is_dir (disk w') q" if "is_dir (disk w) q"
    using that t s by (blast dest: write_node_keeps_dir)
  show "is_file (disk w') q" if "is_file (disk w) q"
    using that t s by (blast dest: write_node_keeps_file)
  show "\<exists>bs. (st networkKey = None \<and> bs = [] \<or> st networkKey = Some (PyBytes bs))
          \<and> lookup (disk w') ?p = Some (File bs)"
    using net write_node_stored [OF s] by blast
qed

lemma write_old_network_keeps_exists:
  "write_old_network E w = (Inr u, w') \<Longrightarrow> c3 w = Some st \<Longrightarrow>
     lookup (disk w) q \<noteq> None \<Longrightarrow> lookup (disk w') q \<noteq> None"
  unfolding exists_iff by (blast dest: write_old_network_facts(2,3))

text \<open>A run of \<open>initState\<close> that returns went through every phase.\<close>

lemma initState_Inr:
  assumes "initState E w = (Inr (), w')"
  obtains st w1 w2 w3 w4 where
    "c3 w = Some st"
    "ensure_dir E inputRelPath w = (Inr (), w1)"
    "ensure_dir E augRelPath w1 = (Inr (), w2)"
    "ensure_dir E unaugRelPath w2 = (Inr (), w3)"
    "ensure_dir E networkRelPath w3 = (Inr (), w4)"
    "rehydrate_all E w4 = (Inr (), w4)"
    "write_old_network E w4 = (Inr (), w')"
proof -
  from assms obtain st where st: "c3 w = Some st"
    by (cases "c3 w") (auto simp: initState_phases)
  with assms have
    "seq (ensure_dir E inputRelPath) (\<lambda>_.
     seq (ensure_dir E augRelPath) (\<lambda>_.
     seq (ensure_dir E unaugRelPath) (\<lambda>_.
     seq (ensure_dir E networkRelPath) (\<lambda>_.
     seq (rehydrate_all E) (\<lambda>_. write_old_network E))))) w = (Inr (), w')"
    by (simp add: initState_phases)
  from seq_InrD [OF this] obtain w1 where 1: "ensure_dir E inputRelPath w = (Inr (), w1)"
    and r1: "seq (ensure_dir E augRelPath) (\<lambda>_.
         seq (ensure_dir E unaugRelPath) (\<lambda>_.
         seq (ensure_dir E networkRelPath) (\<lambda>_.
         seq (rehydrate_all E) (\<lambda>_. write_old_network E)))) w1 = (Inr (), w')"
    by auto
  from seq_InrD [OF r1] obtain w2 where 2: "ensure_dir E augRelPath w1 = (Inr (), w2)"
    and r2: "seq (ensure_dir E unaugRelPath) (\<lambda>_.
         seq (ensure_dir E networkRelPath) (\<lambda>_.
         seq (rehydrate_all E) (\<lambda>_. write_old_network E))) w2 = (Inr (), w')"
    by auto
  from seq_InrD [OF r2] obtain w3 where 3: "ensure_dir E unaugRelPath w2 = (Inr (), w3)"
    and r3: "seq (ensure_dir E networkRelPath) (\<lambda>_.
         seq (rehydrate_all E) (\<lambda>_. write_old_network E)) w3 = (Inr (), w')"
    by auto
  from seq_InrD [OF r3] obtain w4 where 4: "ensure_dir E networkRelPath w3 = (Inr (), w4)"
    and r4: "seq (rehydrate_all E) (\<lambda>_. write_old_network E) w4 = (Inr (), w')"
    by auto
  from seq_InrD [OF r4] obtain w5 where 5: "rehydrate_all E w4 = (Inr (), w5)"
    and 6: "write_old_network E w5 = (Inr (), w')"
    by auto
  from 5 have "w5 = w4" by (rule rehydrate_all_Inr(1))
  with st 1 2 3 4 5 6 that show thesis by simp
qed

lemmas path_defs =
  sep_def tmpDir_def libDir_def standardImgFormat_def inputRelPath_def augRelPath_def
  unaugRelPath_def networkRelPath_def scriptFileRelPath_def inputAbsPath_def augAbsPath_def
  unaugAbsPath_def networkAbsPath_def oldNetworkAbsPath_def newNetworkAbsPath_def
  scriptFileAbsPath_def augImagesKey_def networkKey_def resolve_def is_abs_def split_path_def
  os_path_join_def working_dirs_def

lemmas action_defs =
  seq_def skip_def raise_def lift_def print_def global_name_def module_globals_def
  state_has_def state_get_def state_set_def state_append_def os_path_exists_def
  os_makedirs_def store_file_def writeBytesToFile_def readBytesFromFile_def
  imageFromBytes_def image_save_def os_walk_def call_gd_gen_def call_subprocess_run_def

lemmas program_defs =
  rehydrate_one_def initState_def gatherState_def verify_block_def train_and_gather_def
  acceptImage_def

lemmas ex_defs =
  ex_image_def ex_pil_image_def ex_broken_image_def ex_env_def ex_disk_def
  ex_disk_squatted_def ex_disk_fresh_def ex_disk_bare_def ex_disk_two_def ex_world_def

subsection \<open>acceptImage\<close>

lemma train_and_gather_raises:
  "fst (train_and_gather E im w) \<noteq> Inr u"
  "fst (train_and_gather E im w) \<noteq> Inl InvalidImage"
  "fst (train_and_gather E im w) \<noteq> Inl TrainingFailed"
  by (auto simp add: train_and_gather_def seq_def image_save_def store_file_def call_gd_gen_def
      global_name_def module_globals_def raise_def split: sum.splits prod.splits
      dest: write_node_error)

lemma train_and_gather_keeps:
  "c3 (snd (train_and_gather E im w)) = c3 w
   \<and> spawned (snd (train_and_gather E im w)) = spawned w"
  by (auto simp add: train_and_gather_def seq_def image_save_def store_file_def call_gd_gen_def
      global_name_def module_globals_def raise_def split: sum.splits prod.splits)

lemma verify_block_cases:
  "verify_block im w =
     (case verify im of
        Inl m \<Rightarrow> (Inl (Foreign m), w)
      | Inr v \<Rightarrow> if truthy v then (Inr (), w)
                 else (Inl InvalidImage, w\<lparr>stdout := stdout w @ [''image failed to verify'']\<rparr>))"
  by (simp add: verify_block_def action_defs split: sum.splits)

text \<open>
  Whatever the image, the environment and the world, \<^verbatim>\<open>acceptImage\<close> ends in an
  exception, never \<^verbatim>\<open>TrainingFailed\<close>, and leaves \<^verbatim>\<open>c3.state\<close> and the list of started
  subprocesses as they were.
\<close>

lemma acceptImage_never_returns: "fst (acceptImage E img w) \<noteq> Inr ()"
  by (cases img)
     (auto simp: acceptImage_def verify_block_cases seq_def print_def raise_def
        train_and_gather_raises split: sum.splits)

lemma acceptImage_never_TrainingFailed: "fst (acceptImage E img w) \<noteq> Inl TrainingFailed"
  by (cases img)
     (auto simp: acceptImage_def verify_block_cases seq_def print_def raise_def
        train_and_gather_raises split: sum.splits)

lemma acceptImage_keeps_state:
  "c3 (snd (acceptImage E img w)) = c3 w \<and> spawned (snd (acceptImage E img w)) = spawned w"
  using train_and_gather_keeps [of E _ w]
  by (cases img)
     (auto simp: acceptImage_def verify_block_cases seq_def print_def raise_def
        split: sum.splits)

text \<open>
  Claim C6. \<^verbatim>\<open>acceptImage(None)\<close> raises \<^verbatim>\<open>PillowImageRequired\<close> and writes nothing to
  the file system: the only effect is the printed line.
\<close>

theorem acceptImage_None:
  "acceptImage E None w =
     (Inl PillowImageRequired, w\<lparr>stdout := stdout w @ [''pillow image is required'']\<rparr>)
   \<and> disk (snd (acceptImage E None w)) = disk w"
  by (simp add: acceptImage_def seq_def print_def raise_def)

text \<open>
  Claim C2. For an image handle whose \<^verbatim>\<open>verify()\<close> raises or returns a falsy value,
  \<^verbatim>\<open>acceptImage\<close> raises \<^verbatim>\<open>InvalidImage\<close>, leaves \<^verbatim>\<open>c3.state\<close> as it was and starts
  no subprocess (nor does it touch the file system).
\<close>

theorem acceptImage_invalid_image:
  assumes "verify im = Inl m \<or> (verify im = Inr v \<and> \<not> truthy v)"
  shows "fst (acceptImage E (Some im) w) = Inl InvalidImage
       \<and> c3 (snd (acceptImage E (Some im) w)) = c3 w
       \<and> spawned (snd (acceptImage E (Some im) w)) = spawned w
       \<and> disk (snd (acceptImage E (Some im) w)) = disk w"
  using assms
  by (auto simp: acceptImage_def verify_block_cases seq_def print_def raise_def)

theorem acceptImage_invalid_image_witness:
  "verify ex_broken_image = Inl ''cannot identify image file''
   \<and> fst (acceptImage (ex_env ''/app'' 0) (Some ex_broken_image) (ex_world Map.empty (ex_disk [])))
       = Inl InvalidImage
   \<and> c3 (snd (acceptImage (ex_env ''/app'' 0) (Some ex_broken_image)
        (ex_world Map.empty (ex_disk [])))) = Some Map.empty
   \<and> spawned (snd (acceptImage (ex_env ''/app'' 0) (Some ex_broken_image)
        (ex_world Map.empty (ex_disk [])))) = []
   \<and> disk (snd (acceptImage (ex_env ''/app'' 0) (Some ex_broken_image)
        (ex_world Map.empty (ex_disk [])))) = ex_disk []"
proof -
  have v: "verify ex_broken_image = Inl ''cannot identify image file''"
    by (simp add: ex_broken_image_def)
  then have h: "verify ex_broken_image = Inl ''cannot identify image file''
      \<or> (verify ex_broken_image = Inr PyNone \<and> \<not> truthy PyNone)"
    by simp
  from acceptImage_invalid_image [OF h, of "ex_env ''/app'' 0" "ex_world Map.empty (ex_disk [])"] v
  show ?thesis by (simp add: ex_world_def)
qed

text \<open>
  Claim C9. A falsy return value of \<^verbatim>\<open>verify()\<close>, \<^verbatim>\<open>None\<close> included, makes
  \<^verbatim>\<open>acceptImage\<close> raise \<^verbatim>\<open>InvalidImage\<close>; the call gets past validation, to line 99,
  only when \<^verbatim>\<open>verify()\<close> returns a truthy value without raising.
\<close>

theorem acceptImage_verify_gate:
  "(verify im = Inr v \<and> \<not> truthy v \<longrightarrow> fst (acceptImage E (Some im) w) = Inl InvalidImage)
   \<and> (verify im = Inr PyNone \<longrightarrow> fst (acceptImage E (Some im) w) = Inl InvalidImage)
   \<and> (fst (acceptImage E (Some im) w) \<noteq> Inl InvalidImage
        \<longrightarrow> (\<exists>v'. verify im = Inr v' \<and> truthy v'))
   \<and> ((\<exists>v'. verify im = Inr v' \<and> truthy v')
        \<longrightarrow> acceptImage E (Some im) w = train_and_gather E im w)"
  by (auto simp: acceptImage_def verify_block_cases seq_def print_def raise_def
        split: sum.splits)

theorem acceptImage_verify_gate_witness:
  "verify ex_pil_image = Inr PyNone \<and> \<not> truthy PyNone
   \<and> fst (acceptImage (ex_env ''/app'' 0) (Some ex_pil_image) (ex_world Map.empty (ex_disk [])))
       = Inl InvalidImage
   \<and> fst (acceptImage (ex_env ''/app'' 0) (Some ex_image) (ex_world Map.empty (ex_disk [])))
       \<noteq> Inl InvalidImage
   \<and> verify ex_image = Inr (PyBool True) \<and> truthy (PyBool True)
   \<and> acceptImage (ex_env ''/app'' 0) (Some ex_image) (ex_world Map.empty (ex_disk []))
       = train_and_gather (ex_env ''/app'' 0) ex_image (ex_world Map.empty (ex_disk []))"
proof -
  have p: "verify ex_pil_image = Inr PyNone \<and> \<not> truthy PyNone"
    by (simp add: ex_pil_image_def)
  have t: "verify ex_image = Inr (PyBool True) \<and> truthy (PyBool True)"
    by (simp add: ex_image_def)
  have n: "fst (acceptImage (ex_env ''/app'' 0) (Some ex_image) (ex_world Map.empty (ex_disk [])))
       \<noteq> Inl InvalidImage"
    by (simp add: program_defs action_defs path_defs ex_defs)
  from p t n
    acceptImage_verify_gate [of ex_pil_image PyNone "ex_env ''/app'' 0"
      "ex_world Map.empty (ex_disk [])"]
    acceptImage_verify_gate [of ex_image "PyBool True" "ex_env ''/app'' 0"
      "ex_world Map.empty (ex_disk [])"]
  show ?thesis by blast
qed

text \<open>
  Claim C1 says that a training subprocess exiting non-zero makes \<^verbatim>\<open>acceptImage\<close> raise
  \<^verbatim>\<open>TrainingFailed\<close> with \<^verbatim>\<open>c3.state\<close> unchanged. With a verified image and a training
  script that would exit with code 1, the call raises \<^verbatim>\<open>NameError\<close> on line 107 instead:
  \<^verbatim>\<open>subprocess\<close> is not imported, so no subprocess is started and line 110 is never
  reached. The state is unchanged.
\<close>

theorem acceptImage_nonzero_exit_NameError:
  "fst (acceptImage (ex_env ''/app'' 1) (Some ex_image) (ex_world Map.empty (ex_disk [])))
     = Inl (NameError ''subprocess'')
   \<and> spawned (snd (acceptImage (ex_env ''/app'' 1) (Some ex_image)
        (ex_world Map.empty (ex_disk [])))) = []
   \<and> c3 (snd (acceptImage (ex_env ''/app'' 1) (Some ex_image)
        (ex_world Map.empty (ex_disk [])))) = Some Map.empty"
  by (simp add: program_defs action_defs path_defs ex_defs)

text \<open>
  Claim C3 describes a call of \<^verbatim>\<open>acceptImage\<close> that returns. With a verified image, a
  complete working tree and a training script that would exit with code 0, the input file
  is written, and then the call raises \<^verbatim>\<open>NameError\<close> on line 107: \<^verbatim>\<open>gatherState\<close> does
  not run and \<^verbatim>\<open>c3.state\<close> receives neither \<^verbatim>\<open>network\<close> nor \<^verbatim>\<open>aug_images\<close>.
\<close>

theorem acceptImage_zero_exit_NameError:
  "fst (acceptImage (ex_env ''/app'' 0) (Some ex_image)
          (ex_world Map.empty (ex_disk [(''a.JPEG'', File [7])])))
     = Inl (NameError ''subprocess'')
   \<and> lookup (disk (snd (acceptImage (ex_env ''/app'' 0) (Some ex_image)
        (ex_world Map.empty (ex_disk [(''a.JPEG'', File [7])])))))
        [''app'', ''tmp'', ''input'', ''input.JPEG''] = Some (File [0xFF, 0xD8, 0xFF, 0xD9])
   \<and> c3 (snd (acceptImage (ex_env ''/app'' 0) (Some ex_image)
        (ex_world Map.empty (ex_disk [(''a.JPEG'', File [7])])))) = Some Map.empty"
  by (simp add: program_defs action_defs path_defs ex_defs)

text \<open>
  Called on its own, \<^verbatim>\<open>gatherState\<close> does store the new weights and the content of the
  files of the augmented directory whose names contain \<^verbatim>\<open>.JPEG\<close>.
\<close>

lemma gatherState_example:
  "fst (gatherState (ex_env ''/app'' 0)
          (ex_world Map.empty (ex_disk [(''a.JPEG'', File [7]), (''b.txt'', File [8])]))) = Inr ()
   \<and> c3 (snd (gatherState (ex_env ''/app'' 0)
          (ex_world Map.empty (ex_disk [(''a.JPEG'', File [7]), (''b.txt'', File [8])]))))
       = Some [networkKey \<mapsto> PyBytes [1, 2, 3], augImagesKey \<mapsto> PyList [PyBytes [7]]]"
  by (simp add: program_defs action_defs path_defs ex_defs)

section \<open>\<^verbatim>\<open>initState\<close>: directories, rehydration and the old network\<close>

subsection \<open>How the paths of lines 15-26 resolve\<close>

lemma components_sep:
  "components acc (a @ CHR ''/'' # b) = components acc a @ components [] b"
  by (induction a arbitrary: acc) auto

lemma split_path_join: "split_path (a @ sep @ b) = split_path a @ split_path b"
  by (simp add: split_path_def sep_def components_sep)

lemma is_abs_append: "is_abs a \<Longrightarrow> is_abs (a @ b)"
  by (cases a) (auto simp: is_abs_def)

lemma resolve_abs: "is_abs p \<Longrightarrow> resolve wd p = split_path p"
  by (simp add: resolve_def)

lemma split_rel:
  "split_path inputRelPath = [''tmp'', ''input'']"
  "split_path augRelPath = [''tmp'', ''aug_64x64'']"
  "split_path unaugRelPath = [''tmp'', ''unaug_64x64'']"
  "split_path networkRelPath = [''tmp'', ''network'']"
  by (simp_all add: path_defs)

lemma resolve_rel:
  "resolve wd inputRelPath = split_path wd @ [''tmp'', ''input'']"
  "resolve wd augRelPath = split_path wd @ [''tmp'', ''aug_64x64'']"
  "resolve wd unaugRelPath = split_path wd @ [''tmp'', ''unaug_64x64'']"
  "resolve wd networkRelPath = split_path wd @ [''tmp'', ''network'']"
  by (simp_all add: path_defs)

lemma resolve_here:
  assumes "is_abs h"
  shows "resolve wd (inputAbsPath h) = split_path h @ [''tmp'', ''input'']"
    and "resolve wd (augAbsPath h) = split_path h @ [''tmp'', ''aug_64x64'']"
    and "resolve wd (unaugAbsPath h) = split_path h @ [''tmp'', ''unaug_64x64'']"
    and "resolve wd (networkAbsPath h) = split_path h @ [''tmp'', ''network'']"
    and "resolve wd (oldNetworkAbsPath h) = split_path h @ [''tmp'', ''network'', ''old.net'']"
    and "resolve wd (newNetworkAbsPath h)
           = split_path h @ [''tmp'', ''network'', ''adversarial.net'']"
    and "resolve wd (inputAbsPath h @ sep @ ''input.'' @ standardImgFormat)
           = split_path h @ [''tmp'', ''input'', ''input.JPEG'']"
  using assms
  by (simp_all add: resolve_abs is_abs_append inputAbsPath_def augAbsPath_def unaugAbsPath_def
        networkAbsPath_def oldNetworkAbsPath_def newNetworkAbsPath_def split_path_join split_rel)
     (simp_all add: split_path_def standardImgFormat_def)

subsection \<open>The working directories\<close>


text \<open>
  A run started in \<^verbatim>\<open>/srv\<close>, where no working tree exists, for an installation in
  \<^verbatim>\<open>/app\<close>.
\<close>

lemma initState_fresh_run:
  "fst (initState (ex_env ''/srv'' 0) (ex_world Map.empty ex_disk_fresh)) = Inr ()"
  by (simp add: program_defs action_defs path_defs ex_defs)



subsection \<open>The old network file\<close>

text \<open>
  Line 62 is the last statement of \<^verbatim>\<open>initState\<close>. After a run that returns, the file
  at \<^verbatim>\<open>oldNetworkAbsPath\<close> holds the bytes stored under the key \<^verbatim>\<open>network\<close> of
  \<^verbatim>\<open>c3.state\<close> if the key is present, and is empty if the key is absent. A run that
  raises before line 62 writes nothing there; see the rehydration below.
\<close>

lemma initState_returns_old_network:
  assumes "fst (initState E w) = Inr ()"
  shows "\<exists>st bs. c3 w = Some st
           \<and> (st networkKey = None \<and> bs = [] \<or> st networkKey = Some (PyBytes bs))
           \<and> lookup (disk (snd (initState E w))) (resolve (cwd E) (oldNetworkAbsPath (here E)))
               = Some (File bs)"
proof -
  define w' where "w' = snd (initState E w)"
  with assms have run: "initState E w = (Inr (), w')"
    by (cases "initState E w") simp
  from run obtain st w1 w2 w3 w4 where
    st: "c3 w = Some st" and
    1: "ensure_dir E inputRelPath w = (Inr (), w1)" and
    2: "ensure_dir E augRelPath w1 = (Inr (), w2)" and
    3: "ensure_dir E unaugRelPath w2 = (Inr (), w3)" and
    4: "ensure_dir E networkRelPath w3 = (Inr (), w4)" and
    6: "write_old_network E w4 = (Inr (), w')"
    by (rule initState_Inr)
  have st4: "c3 w4 = Some st"
    using st ensure_dir_Inr(1) [OF 1] ensure_dir_Inr(1) [OF 2]
      ensure_dir_Inr(1) [OF 3] ensure_dir_Inr(1) [OF 4] by simp
  from write_old_network_facts(4) [OF 6 st4] st show ?thesis
    unfolding w'_def by blast
qed

lemma initState_returns_old_network_example:
  "fst (initState (ex_env ''/app'' 0)
          (ex_world [networkKey \<mapsto> PyBytes [9, 8, 7]] (ex_disk []))) = Inr ()
   \<and> lookup (disk (snd (initState (ex_env ''/app'' 0)
          (ex_world [networkKey \<mapsto> PyBytes [9, 8, 7]] (ex_disk [])))))
        [''app'', ''tmp'', ''network'', ''old.net''] = Some (File [9, 8, 7])
   \<and> fst (initState (ex_env ''/app'' 0) (ex_world Map.empty (ex_disk []))) = Inr ()
   \<and> lookup (disk (snd (initState (ex_env ''/app'' 0) (ex_world Map.empty (ex_disk [])))))
        [''app'', ''tmp'', ''network'', ''old.net''] = Some (File [])"
proof -
  have h1: "fst (initState (ex_env ''/app'' 0)
          (ex_world [networkKey \<mapsto> PyBytes [9, 8, 7]] (ex_disk []))) = Inr ()"
    by (simp add: program_defs action_defs path_defs ex_defs)
  have h2: "fst (initState (ex_env ''/app'' 0) (ex_world Map.empty (ex_disk []))) = Inr ()"
    by (simp add: program_defs action_defs path_defs ex_defs)
  have p: "resolve (cwd (ex_env ''/app'' 0)) (oldNetworkAbsPath (here (ex_env ''/app'' 0)))
           = [''app'', ''tmp'', ''network'', ''old.net'']"
    by (simp add: path_defs ex_env_def)
  from initState_returns_old_network [OF h1] initState_returns_old_network [OF h2] h1 h2
  show ?thesis
    unfolding p by (auto simp: ex_world_def)
qed

subsection \<open>Relative directories, absolute files\<close>

text \<open>
  The four directories that \<^verbatim>\<open>initState\<close> tests and creates are read from the current
  working directory; the paths of the files are under the directory of \<^verbatim>\<open>main.py\<close>.
  \<open>here E\<close> is the result of \<^verbatim>\<open>os.path.abspath\<close>, hence absolute.
\<close>

lemma working_dirs_cwd_files_here:
  assumes "is_abs (here E)"
  shows "resolve (cwd E) inputRelPath = split_path (cwd E) @ [''tmp'', ''input'']
       \<and> resolve (cwd E) augRelPath = split_path (cwd E) @ [''tmp'', ''aug_64x64'']
       \<and> resolve (cwd E) unaugRelPath = split_path (cwd E) @ [''tmp'', ''unaug_64x64'']
       \<and> resolve (cwd E) networkRelPath = split_path (cwd E) @ [''tmp'', ''network'']
       \<and> resolve (cwd E) (oldNetworkAbsPath (here E))
           = split_path (here E) @ [''tmp'', ''network'', ''old.net'']
       \<and> resolve (cwd E) (inputAbsPath (here E) @ sep @ ''input.'' @ standardImgFormat)
           = split_path (here E) @ [''tmp'', ''input'', ''input.JPEG'']
       \<and> resolve (cwd E) (newNetworkAbsPath (here E))
           = split_path (here E) @ [''tmp'', ''network'', ''adversarial.net'']
       \<and> resolve (cwd E) (augAbsPath (here E)) = split_path (here E) @ [''tmp'', ''aug_64x64'']
       \<and> ((resolve (cwd E) inputRelPath = resolve (cwd E) (inputAbsPath (here E)))
            = (split_path (cwd E) = split_path (here E)))
       \<and> ((resolve (cwd E) augRelPath = resolve (cwd E) (augAbsPath (here E)))
            = (split_path (cwd E) = split_path (here E)))
       \<and> ((resolve (cwd E) unaugRelPath = resolve (cwd E) (unaugAbsPath (here E)))
            = (split_path (cwd E) = split_path (here E)))
       \<and> ((resolve (cwd E) networkRelPath = resolve (cwd E) (networkAbsPath (here E)))
            = (split_path (cwd E) = split_path (here E)))
       \<and> (fst (initState E w) = Inr () \<longrightarrow>
            lookup (disk (snd (initState E w))) (split_path (cwd E) @ [''tmp'', ''input''])
              \<noteq> None
            \<and> lookup (disk (snd (initState E w))) (split_path (cwd E) @ [''tmp'', ''aug_64x64''])
              \<noteq> None
            \<and> lookup (disk (snd (initState E w))) (split_path (cwd E) @ [''tmp'', ''unaug_64x64''])
              \<noteq> None
            \<and> lookup (disk (snd (initState E w))) (split_path (cwd E) @ [''tmp'', ''network''])
              \<noteq> None
            \<and> is_file (disk (snd (initState E w)))
                (split_path (here E) @ [''tmp'', ''network'', ''old.net'']))"
proof -
  note paths = resolve_rel resolve_here [OF assms]
  have run: "lookup (disk (snd (initState E w))) (split_path (cwd E) @ [''tmp'', ''input''])
              \<noteq> None
            \<and> lookup (disk (snd (initState E w))) (split_path (cwd E) @ [''tmp'', ''aug_64x64''])
              \<noteq> None
            \<and> lookup (disk (snd (initState E w))) (split_path (cwd E) @ [''tmp'', ''unaug_64x64''])
              \<noteq> None
            \<and> lookup (disk (snd (initState E w))) (split_path (cwd E) @ [''tmp'', ''network''])
              \<noteq> None
            \<and> is_file (disk (snd (initState E w)))
                (split_path (here E) @ [''tmp'', ''network'', ''old.net''])"
    if h: "fst (initState E w) = Inr ()"
  proof -
    define w' where "w' = snd (initState E w)"
    with h have "initState E w = (Inr (), w')"
      by (cases "initState E w") simp
    then obtain st w1 w2 w3 w4 where
      st: "c3 w = Some st" and
      1: "ensure_dir E inputRelPath w = (Inr (), w1)" and
      2: "ensure_dir E augRelPath w1 = (Inr (), w2)" and
      3: "ensure_dir E unaugRelPath w2 = (Inr (), w3)" and
      4: "ensure_dir E networkRelPath w3 = (Inr (), w4)" and
      6: "write_old_network E w4 = (Inr (), w')"
      by (rule initState_Inr)
    have st4: "c3 w4 = Some st"
      using st ensure_dir_Inr(1) [OF 1] ensure_dir_Inr(1) [OF 2]
        ensure_dir_Inr(1) [OF 3] ensure_dir_Inr(1) [OF 4] by simp
    note last = write_old_network_keeps_exists [OF 6 st4]
    have e1: "lookup (disk w') (resolve (cwd E) inputRelPath) \<noteq> None"
      by (intro last ensure_dir_keeps_exists [OF 4] ensure_dir_keeps_exists [OF 3]
            ensure_dir_keeps_exists [OF 2] ensure_dir_Inr(2) [OF 1])
    have e2: "lookup (disk w') (resolve (cwd E) augRelPath) \<noteq> None"
      by (intro last ensure_dir_keeps_exists [OF 4] ensure_dir_keeps_exists [OF 3]
            ensure_dir_Inr(2) [OF 2])
    have e3: "lookup (disk w') (resolve (cwd E) unaugRelPath) \<noteq> None"
      by (intro last ensure_dir_keeps_exists [OF 4] ensure_dir_Inr(2) [OF 3])
    have e4: "lookup (disk w') (resolve (cwd E) networkRelPath) \<noteq> None"
      by (intro last ensure_dir_Inr(2) [OF 4])
    from write_old_network_facts(4) [OF 6 st4]
    have f: "is_file (disk w') (resolve (cwd E) (oldNetworkAbsPath (here E)))"
      by (auto simp: is_file_def)
    from e1 e2 e3 e4 f show ?thesis
      unfolding w'_def paths by simp
  qed
  show ?thesis
    using run unfolding paths by simp
qed

text \<open>
  The reads and writes of \<^verbatim>\<open>acceptImage\<close> and \<^verbatim>\<open>gatherState\<close>: every path they use
  is absolute, so neither function depends on the current working directory; the input
  image is stored under the directory of \<^verbatim>\<open>main.py\<close> before \<^verbatim>\<open>gd.gen\<close> is called,
  the new network is read from there and the walk starts there.
\<close>

lemma is_abs_os_path_join: "is_abs r \<Longrightarrow> is_abs (os_path_join r f)"
  by (cases r) (auto simp: os_path_join_def is_abs_def sep_def)

lemma walk_abs:
  "is_abs r \<Longrightarrow> t \<in> set (walk r n) \<Longrightarrow> is_abs (fst t)"
  "is_abs r \<Longrightarrow> t \<in> set (walk_entries r es) \<Longrightarrow> is_abs (fst t)"
  by (induction r n and r es arbitrary: t and t rule: walk_walk_entries.induct)
     (auto simp: is_abs_os_path_join)

lemma store_file_cwd: "is_abs p \<Longrightarrow> store_file (E\<lparr>cwd := c\<rparr>) p = store_file E p"
  by (rule ext)+ (simp add: store_file_def resolve_abs)

lemma readBytesFromFile_cwd:
  "is_abs p \<Longrightarrow> readBytesFromFile (E\<lparr>cwd := c\<rparr>) p = readBytesFromFile E p"
  by (rule ext) (simp add: readBytesFromFile_def resolve_abs)

lemma image_save_cwd: "is_abs p \<Longrightarrow> image_save (E\<lparr>cwd := c\<rparr>) im p = image_save E im p"
  by (rule ext)+ (simp add: image_save_def store_file_cwd split: sum.splits)

lemma os_walk_cwd: "is_abs p \<Longrightarrow> os_walk (E\<lparr>cwd := c\<rparr>) p = os_walk E p"
  by (rule ext) (simp add: os_walk_def resolve_abs)

lemma call_cwd:
  "call_gd_gen (E\<lparr>cwd := c\<rparr>) = call_gd_gen E"
  "call_subprocess_run (E\<lparr>cwd := c\<rparr>) = call_subprocess_run E"
  by (rule ext, simp add: call_gd_gen_def call_subprocess_run_def fun_eq_iff)+

lemma gather_files_cwd:
  "is_abs r \<Longrightarrow> gather_files (E\<lparr>cwd := c\<rparr>) r fs w = gather_files E r fs w"
  by (induction fs arbitrary: w)
     (simp_all add: readBytesFromFile_cwd is_abs_os_path_join split: prod.splits sum.splits)

lemma gather_walk_cwd:
  "(\<And>t. t \<in> set ts \<Longrightarrow> is_abs (fst t)) \<Longrightarrow>
     gather_walk (E\<lparr>cwd := c\<rparr>) ts w = gather_walk E ts w"
proof (induction ts arbitrary: w)
  case (Cons t ts)
  obtain r d f where t: "t = (r, d, f)" by (cases t)
  with Cons.prems [of t] have "is_abs r" by simp
  with Cons t show ?case by (simp add: gather_files_cwd split: prod.splits sum.splits)
qed simp

lemma os_walk_abs:
  "is_abs p \<Longrightarrow> os_walk E p w = (Inr ts, w') \<Longrightarrow> t \<in> set ts \<Longrightarrow> is_abs (fst t)"
  by (auto simp: os_walk_def split: option.splits node.splits dest: walk_abs)

lemma gatherState_cwd:
  assumes "is_abs (here E)"
  shows "gatherState (E\<lparr>cwd := c\<rparr>) = gatherState E"
proof
  fix w
  have a: "is_abs (newNetworkAbsPath (here E))" "is_abs (augAbsPath (here E))"
    using assms
    by (simp_all add: newNetworkAbsPath_def networkAbsPath_def augAbsPath_def is_abs_append)
  have tail: "seq (os_walk E (augAbsPath (here E))) (gather_walk (E\<lparr>cwd := c\<rparr>)) w1
        = seq (os_walk E (augAbsPath (here E))) (gather_walk E) w1" for w1
  proof (cases "os_walk E (augAbsPath (here E)) w1")
    case (Pair r w2)
    show ?thesis
    proof (cases r)
      case (Inr ts)
      with Pair have "os_walk E (augAbsPath (here E)) w1 = (Inr ts, w2)" by simp
      then have "gather_walk (E\<lparr>cwd := c\<rparr>) ts w2 = gather_walk E ts w2"
        by (intro gather_walk_cwd) (rule os_walk_abs [OF a(2)])
      with Pair Inr show ?thesis by (simp add: seq_def)
    qed (use Pair in \<open>simp add: seq_def\<close>)
  qed
  then have "seq (os_walk E (augAbsPath (here E))) (gather_walk (E\<lparr>cwd := c\<rparr>))
        = seq (os_walk E (augAbsPath (here E))) (gather_walk E)"
    by (rule ext)
  then show "gatherState (E\<lparr>cwd := c\<rparr>) w = gatherState E w"
    by (simp add: gatherState_def readBytesFromFile_cwd os_walk_cwd a)
qed

lemma acceptImage_cwd:
  assumes "is_abs (here E)"
  shows "acceptImage (E\<lparr>cwd := c\<rparr>) img w = acceptImage E img w"
proof -
  have "is_abs (inputAbsPath (here E) @ sep @ ''input.'' @ standardImgFormat)"
    using assms by (simp add: inputAbsPath_def is_abs_append)
  then have "train_and_gather (E\<lparr>cwd := c\<rparr>) = train_and_gather E"
    by (intro ext) (simp add: train_and_gather_def image_save_cwd call_cwd
          gatherState_cwd [OF assms])
  then show ?thesis by (simp add: acceptImage_def split: option.splits prod.splits sum.splits)
qed

lemma gather_files_keeps:
  "gather_files E r fs w = (res, w') \<Longrightarrow>
     disk w' = disk w
     \<and> map_option (\<lambda>s. s networkKey) (c3 w') = map_option (\<lambda>s. s networkKey) (c3 w)"
proof (induction fs arbitrary: w)
  case (Cons f fs)
  show ?case
  proof (cases "contains (''.'' @ standardImgFormat) f")
    case False
    with Cons show ?thesis by simp
  next
    case True
    obtain r1 w1 where s: "seq (readBytesFromFile E (os_path_join r f))
                   (\<lambda>b. state_append augImagesKey (PyBytes b)) w = (r1, w1)"
      by (cases "seq (readBytesFromFile E (os_path_join r f))
                   (\<lambda>b. state_append augImagesKey (PyBytes b)) w")
    then have k: "disk w1 = disk w
        \<and> map_option (\<lambda>s. s networkKey) (c3 w1) = map_option (\<lambda>s. s networkKey) (c3 w)"
      by (auto simp: seq_def readBytesFromFile_def state_append_def augImagesKey_def
            networkKey_def split: sum.splits option.splits pyval.splits)
    show ?thesis
    proof (cases r1)
      case (Inl e)
      with Cons.prems True s k show ?thesis by auto
    next
      case (Inr u)
      with Cons.prems True s have "gather_files E r fs w1 = (res, w')" by simp
      from Cons.IH [OF this] k show ?thesis by simp
    qed
  qed
qed simp

lemma gather_walk_keeps:
  "gather_walk E ts w = (res, w') \<Longrightarrow>
     disk w' = disk w
     \<and> map_option (\<lambda>s. s networkKey) (c3 w') = map_option (\<lambda>s. s networkKey) (c3 w)"
proof (induction ts arbitrary: w)
  case (Cons t ts)
  obtain r d f where t: "t = (r, d, f)" by (cases t)
  obtain r1 w1 where s: "gather_files E r f w = (r1, w1)"
    by (cases "gather_files E r f w")
  note k = gather_files_keeps [OF s]
  show ?case
  proof (cases r1)
    case (Inl e)
    with Cons.prems t s k show ?thesis by auto
  next
    case (Inr u)
    with Cons.prems t s have "gather_walk E ts w1 = (res, w')" by simp
    from Cons.IH [OF this] k show ?thesis by simp
  qed
qed simp

lemma gatherState_reads:
  assumes "is_abs (here E)"
  shows "read_node (disk w) (split_path (here E) @ [''tmp'', ''network'', ''adversarial.net''])
           = Inl e \<Longrightarrow> gatherState E w = (Inl e, w)"
    and "c3 w = Some st \<Longrightarrow>
         read_node (disk w) (split_path (here E) @ [''tmp'', ''network'', ''adversarial.net''])
           = Inr net \<Longrightarrow>
         gatherState E w
           = gather_walk E
               (case lookup (disk w) (split_path (here E) @ [''tmp'', ''aug_64x64'']) of
                  Some (Dir es) \<Rightarrow> walk (augAbsPath (here E)) (Dir es)
                | _ \<Rightarrow> [])
               (w\<lparr>c3 := Some (st(networkKey \<mapsto> PyBytes net, augImagesKey \<mapsto> PyList []))\<rparr>)"
  using resolve_here(2,6) [OF assms, of "cwd E"]
  by (auto simp: gatherState_def seq_def readBytesFromFile_def state_set_def os_walk_def
        split: option.splits node.splits)

lemma gatherState_network:
  assumes "is_abs (here E)" and "c3 w = Some st"
    and "read_node (disk w) (split_path (here E) @ [''tmp'', ''network'', ''adversarial.net''])
           = Inr net"
  shows "map_option (\<lambda>s. s networkKey) (c3 (snd (gatherState E w))) = Some (Some (PyBytes net))"
proof -
  let ?ts = "case lookup (disk w) (split_path (here E) @ [''tmp'', ''aug_64x64'']) of
                  Some (Dir es) \<Rightarrow> walk (augAbsPath (here E)) (Dir es)
                | _ \<Rightarrow> []"
  let ?w = "w\<lparr>c3 := Some (st(networkKey \<mapsto> PyBytes net, augImagesKey \<mapsto> PyList []))\<rparr>"
  have g: "gatherState E w = gather_walk E ?ts ?w"
    using assms by (rule gatherState_reads(2))
  obtain res w' where r: "gather_walk E ?ts ?w = (res, w')"
    by (cases "gather_walk E ?ts ?w")
  from gather_walk_keeps [OF r] g r show ?thesis
    by (simp add: augImagesKey_def networkKey_def)
qed

lemma acceptImage_saves_input:
  assumes "is_abs (here E)" and "verify im = Inr v" and "truthy v"
    and "save im (inputAbsPath (here E) @ sep @ ''input.'' @ standardImgFormat)
           (Some standardImgFormat) = Inr bs"
  shows "write_node (disk w) (split_path (here E) @ [''tmp'', ''input'', ''input.JPEG'']) bs
           = Inl e \<Longrightarrow> acceptImage E (Some im) w = (Inl e, w)"
    and "write_node (disk w) (split_path (here E) @ [''tmp'', ''input'', ''input.JPEG'']) bs
           = Inr n1 \<Longrightarrow>
         disk (snd (acceptImage E (Some im) w))
           = snd (gd_gen E (inputAbsPath (here E)) (augAbsPath (here E))
                    (unaugAbsPath (here E)) n1)"
  using assms(2-4) resolve_here(7) [OF assms(1), of "cwd E"]
  by (auto simp: acceptImage_def verify_block_cases train_and_gather_def seq_def
        image_save_def store_file_def call_gd_gen_def global_name_def module_globals_def
        raise_def split: prod.splits sum.splits)

text \<open>
  Claim C10. The four directories that \<^verbatim>\<open>initState\<close> tests and creates are read from
  the current working directory, while the old-network write of \<^verbatim>\<open>initState\<close>, the save
  of the input image in \<^verbatim>\<open>acceptImage\<close>, and the read of the new network and the walk
  over the augmented images in \<^verbatim>\<open>gatherState\<close> use paths under the directory of
  \<^verbatim>\<open>main.py\<close>, whatever the current working directory. A created directory is the
  directory of the same name used for file input and output exactly when the current
  working directory is the directory of \<^verbatim>\<open>main.py\<close>.
\<close>

theorem working_dirs_relative_file_io_absolute:
  assumes "is_abs (here E)"
  shows "resolve (cwd E) inputRelPath = split_path (cwd E) @ [''tmp'', ''input'']
       \<and> resolve (cwd E) augRelPath = split_path (cwd E) @ [''tmp'', ''aug_64x64'']
       \<and> resolve (cwd E) unaugRelPath = split_path (cwd E) @ [''tmp'', ''unaug_64x64'']
       \<and> resolve (cwd E) networkRelPath = split_path (cwd E) @ [''tmp'', ''network'']
       \<and> resolve (cwd E) (oldNetworkAbsPath (here E))
           = split_path (here E) @ [''tmp'', ''network'', ''old.net'']
       \<and> resolve (cwd E) (inputAbsPath (here E) @ sep @ ''input.'' @ standardImgFormat)
           = split_path (here E) @ [''tmp'', ''input'', ''input.JPEG'']
       \<and> resolve (cwd E) (newNetworkAbsPath (here E))
           = split_path (here E) @ [''tmp'', ''network'', ''adversarial.net'']
       \<and> resolve (cwd E) (augAbsPath (here E)) = split_path (here E) @ [''tmp'', ''aug_64x64'']
       \<and> ((resolve (cwd E) inputRelPath = resolve (cwd E) (inputAbsPath (here E)))
            = (split_path (cwd E) = split_path (here E)))
       \<and> ((resolve (cwd E) augRelPath = resolve (cwd E) (augAbsPath (here E)))
            = (split_path (cwd E) = split_path (here E)))
       \<and> ((resolve (cwd E) unaugRelPath = resolve (cwd E) (unaugAbsPath (here E)))
            = (split_path (cwd E) = split_path (here E)))
       \<and> ((resolve (cwd E) networkRelPath = resolve (cwd E) (networkAbsPath (here E)))
            = (split_path (cwd E) = split_path (here E)))
       \<and> (fst (initState E w) = Inr () \<longrightarrow>
            lookup (disk (snd (initState E w))) (split_path (cwd E) @ [''tmp'', ''input''])
              \<noteq> None
            \<and> lookup (disk (snd (initState E w))) (split_path (cwd E) @ [''tmp'', ''aug_64x64''])
              \<noteq> None
            \<and> lookup (disk (snd (initState E w))) (split_path (cwd E) @ [''tmp'', ''unaug_64x64''])
              \<noteq> None
            \<and> lookup (disk (snd (initState E w))) (split_path (cwd E) @ [''tmp'', ''network''])
              \<noteq> None
            \<and> is_file (disk (snd (initState E w)))
                (split_path (here E) @ [''tmp'', ''network'', ''old.net'']))
       \<and> (verify im = Inr v \<and> truthy v
            \<and> save im (inputAbsPath (here E) @ sep @ ''input.'' @ standardImgFormat)
                 (Some standardImgFormat) = Inr bs \<longrightarrow>
            (write_node (disk w) (split_path (here E) @ [''tmp'', ''input'', ''input.JPEG'']) bs
               = Inl e \<longrightarrow> acceptImage E (Some im) w = (Inl e, w))
            \<and> (write_node (disk w) (split_path (here E) @ [''tmp'', ''input'', ''input.JPEG'']) bs
               = Inr n1 \<longrightarrow>
                 lookup n1 (split_path (here E) @ [''tmp'', ''input'', ''input.JPEG''])
                   = Some (File bs)
                 \<and> disk (snd (acceptImage E (Some im) w))
                     = snd (gd_gen E (inputAbsPath (here E)) (augAbsPath (here E))
                              (unaugAbsPath (here E)) n1)))
       \<and> (read_node (disk w) (split_path (here E) @ [''tmp'', ''network'', ''adversarial.net''])
             = Inl e \<longrightarrow> gatherState E w = (Inl e, w))
       \<and> (c3 w = Some st
            \<and> read_node (disk w) (split_path (here E) @ [''tmp'', ''network'', ''adversarial.net''])
                = Inr net \<longrightarrow>
            gatherState E w
              = gather_walk E
                  (case lookup (disk w) (split_path (here E) @ [''tmp'', ''aug_64x64'']) of
                     Some (Dir es) \<Rightarrow> walk (augAbsPath (here E)) (Dir es)
                   | _ \<Rightarrow> [])
                  (w\<lparr>c3 := Some (st(networkKey \<mapsto> PyBytes net, augImagesKey \<mapsto> PyList []))\<rparr>)
            \<and> map_option (\<lambda>s. s networkKey) (c3 (snd (gatherState E w)))
                = Some (Some (PyBytes net)))
       \<and> acceptImage (E\<lparr>cwd := c\<rparr>) img w = acceptImage E img w
       \<and> gatherState (E\<lparr>cwd := c\<rparr>) w = gatherState E w"
proof -
  note old = working_dirs_cwd_files_here [OF assms, of w]
  have save: "verify im = Inr v \<and> truthy v
            \<and> save im (inputAbsPath (here E) @ sep @ ''input.'' @ standardImgFormat)
                 (Some standardImgFormat) = Inr bs \<longrightarrow>
            (write_node (disk w) (split_path (here E) @ [''tmp'', ''input'', ''input.JPEG'']) bs
               = Inl e \<longrightarrow> acceptImage E (Some im) w = (Inl e, w))
            \<and> (write_node (disk w) (split_path (here E) @ [''tmp'', ''input'', ''input.JPEG'']) bs
               = Inr n1 \<longrightarrow>
                 lookup n1 (split_path (here E) @ [''tmp'', ''input'', ''input.JPEG''])
                   = Some (File bs)
                 \<and> disk (snd (acceptImage E (Some im) w))
                     = snd (gd_gen E (inputAbsPath (here E)) (augAbsPath (here E))
                              (unaugAbsPath (here E)) n1))"
    using acceptImage_saves_input [OF assms, of im v bs w] write_node_stored
    by blast
  have rd: "read_node (disk w) (split_path (here E) @ [''tmp'', ''network'', ''adversarial.net''])
             = Inl e \<longrightarrow> gatherState E w = (Inl e, w)"
    using gatherState_reads(1) [OF assms] by blast
  have gather: "c3 w = Some st
            \<and> read_node (disk w) (split_path (here E) @ [''tmp'', ''network'', ''adversarial.net''])
                = Inr net \<longrightarrow>
            gatherState E w
              = gather_walk E
                  (case lookup (disk w) (split_path (here E) @ [''tmp'', ''aug_64x64'']) of
                     Some (Dir es) \<Rightarrow> walk (augAbsPath (here E)) (Dir es)
                   | _ \<Rightarrow> [])
                  (w\<lparr>c3 := Some (st(networkKey \<mapsto> PyBytes net, augImagesKey \<mapsto> PyList []))\<rparr>)
            \<and> map_option (\<lambda>s. s networkKey) (c3 (snd (gatherState E w)))
                = Some (Some (PyBytes net))"
    using gatherState_reads(2) [OF assms] gatherState_network [OF assms] by blast
  have indep: "acceptImage (E\<lparr>cwd := c\<rparr>) img w = acceptImage E img w
       \<and> gatherState (E\<lparr>cwd := c\<rparr>) w = gatherState E w"
    using acceptImage_cwd [OF assms] gatherState_cwd [OF assms] by simp
  from old save rd gather indep show ?thesis
    by (intro conjI) (elim conjE, assumption)+
qed

theorem working_dirs_relative_file_io_absolute_witness:
  "is_abs (here (ex_env ''/srv'' 0))
   \<and> split_path (cwd (ex_env ''/srv'' 0)) \<noteq> split_path (here (ex_env ''/srv'' 0))
   \<and> resolve (cwd (ex_env ''/srv'' 0)) networkRelPath = [''srv'', ''tmp'', ''network'']
   \<and> resolve (cwd (ex_env ''/srv'' 0)) (networkAbsPath (here (ex_env ''/srv'' 0)))
       = [''app'', ''tmp'', ''network'']
   \<and> fst (initState (ex_env ''/srv'' 0) (ex_world Map.empty ex_disk_fresh)) = Inr ()
   \<and> lookup (disk (snd (initState (ex_env ''/srv'' 0) (ex_world Map.empty ex_disk_fresh))))
        [''srv'', ''tmp'', ''input''] \<noteq> None
   \<and> is_file (disk (snd (initState (ex_env ''/srv'' 0) (ex_world Map.empty ex_disk_fresh))))
        [''app'', ''tmp'', ''network'', ''old.net'']
   \<and> verify ex_image = Inr (PyBool True) \<and> truthy (PyBool True)
   \<and> save ex_image
        (inputAbsPath (here (ex_env ''/srv'' 0)) @ sep @ ''input.'' @ standardImgFormat)
        (Some standardImgFormat) = Inr [0xFF, 0xD8, 0xFF, 0xD9]
   \<and> lookup (disk (snd (acceptImage (ex_env ''/srv'' 0) (Some ex_image)
        (ex_world Map.empty ex_disk_two))))
        [''app'', ''tmp'', ''input'', ''input.JPEG''] = Some (File [0xFF, 0xD8, 0xFF, 0xD9])
   \<and> lookup (disk (snd (acceptImage (ex_env ''/srv'' 0) (Some ex_image)
        (ex_world Map.empty ex_disk_two))))
        [''srv'', ''tmp'', ''input'', ''input.JPEG''] = None
   \<and> c3 (ex_world Map.empty ex_disk_two) = Some Map.empty
   \<and> read_node (disk (ex_world Map.empty ex_disk_two))
        (split_path (here (ex_env ''/srv'' 0)) @ [''tmp'', ''network'', ''adversarial.net''])
       = Inr [1, 2, 3]
   \<and> fst (gatherState (ex_env ''/srv'' 0) (ex_world Map.empty ex_disk_two)) = Inr ()
   \<and> c3 (snd (gatherState (ex_env ''/srv'' 0) (ex_world Map.empty ex_disk_two)))
       = Some [networkKey \<mapsto> PyBytes [1, 2, 3], augImagesKey \<mapsto> PyList [PyBytes [7]]]
   \<and> map_option (\<lambda>s. s networkKey)
        (c3 (snd (gatherState (ex_env ''/srv'' 0) (ex_world Map.empty ex_disk_two))))
       = Some (Some (PyBytes [1, 2, 3]))"
proof -
  have a: "is_abs (here (ex_env ''/srv'' 0))"
    by (simp add: ex_env_def is_abs_def)
  have h: "fst (initState (ex_env ''/srv'' 0) (ex_world Map.empty ex_disk_fresh)) = Inr ()"
    by (rule initState_fresh_run)
  have c: "split_path (cwd (ex_env ''/srv'' 0)) = [''srv'']"
    and d: "split_path (here (ex_env ''/srv'' 0)) = [''app'']"
    and n: "resolve (cwd (ex_env ''/srv'' 0)) (networkAbsPath (here (ex_env ''/srv'' 0)))
       = [''app'', ''tmp'', ''network'']"
    and r: "resolve (cwd (ex_env ''/srv'' 0)) networkRelPath = [''srv'', ''tmp'', ''network'']"
    by (simp_all add: ex_env_def path_defs)
  have v: "verify ex_image = Inr (PyBool True) \<and> truthy (PyBool True)"
    and s: "save ex_image
        (inputAbsPath (here (ex_env ''/srv'' 0)) @ sep @ ''input.'' @ standardImgFormat)
        (Some standardImgFormat) = Inr [0xFF, 0xD8, 0xFF, 0xD9]"
    by (simp_all add: ex_image_def)
  have acc: "lookup (disk (snd (acceptImage (ex_env ''/srv'' 0) (Some ex_image)
        (ex_world Map.empty ex_disk_two))))
        [''app'', ''tmp'', ''input'', ''input.JPEG''] = Some (File [0xFF, 0xD8, 0xFF, 0xD9])
   \<and> lookup (disk (snd (acceptImage (ex_env ''/srv'' 0) (Some ex_image)
        (ex_world Map.empty ex_disk_two))))
        [''srv'', ''tmp'', ''input'', ''input.JPEG''] = None"
    by (simp add: program_defs action_defs path_defs ex_defs)
  have st: "c3 (ex_world Map.empty ex_disk_two) = Some Map.empty"
    and rd: "read_node (disk (ex_world Map.empty ex_disk_two))
        (split_path (here (ex_env ''/srv'' 0)) @ [''tmp'', ''network'', ''adversarial.net''])
       = Inr [1, 2, 3]"
    by (simp_all add: ex_defs path_defs)
  have g: "fst (gatherState (ex_env ''/srv'' 0) (ex_world Map.empty ex_disk_two)) = Inr ()
   \<and> c3 (snd (gatherState (ex_env ''/srv'' 0) (ex_world Map.empty ex_disk_two)))
       = Some [networkKey \<mapsto> PyBytes [1, 2, 3], augImagesKey \<mapsto> PyList [PyBytes [7]]]"
    by (simp add: program_defs action_defs path_defs ex_defs)
  have "lookup (disk (snd (initState (ex_env ''/srv'' 0) (ex_world Map.empty ex_disk_fresh))))
        [''srv'', ''tmp'', ''input''] \<noteq> None
   \<and> is_file (disk (snd (initState (ex_env ''/srv'' 0) (ex_world Map.empty ex_disk_fresh))))
        [''app'', ''tmp'', ''network'', ''old.net'']"
    using working_dirs_relative_file_io_absolute
         [OF a, where w = "ex_world Map.empty ex_disk_fresh"] h
    unfolding c d by simp
  moreover have "map_option (\<lambda>s. s networkKey)
        (c3 (snd (gatherState (ex_env ''/srv'' 0) (ex_world Map.empty ex_disk_two))))
       = Some (Some (PyBytes [1, 2, 3]))"
    using working_dirs_relative_file_io_absolute
         [OF a, where w = "ex_world Map.empty ex_disk_two" and st = Map.empty
            and net = "[1, 2, 3]"] st rd
    by blast
  ultimately show ?thesis
    using a h n r v s acc st rd g unfolding c d by simp
qed

text \<open>
  Started in \<^verbatim>\<open>/srv\<close> for an installation in \<^verbatim>\<open>/app\<close> that has no working tree,
  \<^verbatim>\<open>initState\<close> creates \<^verbatim>\<open>/srv/tmp/network\<close> and then fails to write
  \<^verbatim>\<open>/app/tmp/network/old.net\<close>.
\<close>

lemma initState_away_from_install_dir:
  "fst (initState (ex_env ''/srv'' 0) (ex_world Map.empty ex_disk_bare)) = Inl FileNotFoundError
   \<and> is_dir (disk (snd (initState (ex_env ''/srv'' 0) (ex_world Map.empty ex_disk_bare))))
        [''srv'', ''tmp'', ''network'']
   \<and> lookup (disk (snd (initState (ex_env ''/srv'' 0) (ex_world Map.empty ex_disk_bare))))
        [''app'', ''tmp''] = None"
  by (simp add: program_defs action_defs path_defs ex_defs is_dir_def)

subsection \<open>Rehydration of the augmented images\<close>

text \<open>
  Line 56 adds the integer \<^verbatim>\<open>idx\<close> to a string, which raises \<^verbatim>\<open>TypeError\<close> before
  \<^verbatim>\<open>save\<close> is called (unless \<^verbatim>\<open>Image.open\<close> has raised already). So a run of
  \<^verbatim>\<open>initState\<close> on a state whose \<^verbatim>\<open>aug_images\<close> list is not empty never returns
  normally.
\<close>

lemma rehydrate_all_nonempty:
  assumes "c3 w = Some st" and "st augImagesKey = Some (PyList (b # bs))"
  shows "\<exists>e. rehydrate_all E w = (Inl e, w)"
proof -
  obtain e where "rehydrate_one E 0 w = (Inl e, w)"
    using rehydrate_one_raises by blast
  with assms show ?thesis
    by (simp add: rehydrate_all_def seq_def state_has_def state_get_def lift_def
          upt_conv_Cons domI del: upt_Suc)
qed

lemma initState_nonempty_aug_images:
  assumes "c3 w = Some st" and "st augImagesKey = Some (PyList (b # bs))"
  shows "fst (initState E w) \<noteq> Inr ()"
proof
  assume "fst (initState E w) = Inr ()"
  then have "initState E w = (Inr (), snd (initState E w))"
    by (cases "initState E w") simp
  then obtain st' w1 w2 w3 w4 where
    st': "c3 w = Some st'" and
    1: "ensure_dir E inputRelPath w = (Inr (), w1)" and
    2: "ensure_dir E augRelPath w1 = (Inr (), w2)" and
    3: "ensure_dir E unaugRelPath w2 = (Inr (), w3)" and
    4: "ensure_dir E networkRelPath w3 = (Inr (), w4)" and
    5: "rehydrate_all E w4 = (Inr (), w4)"
    by (rule initState_Inr)
  have "c3 w4 = Some st"
    using assms(1) ensure_dir_Inr(1) [OF 1] ensure_dir_Inr(1) [OF 2]
      ensure_dir_Inr(1) [OF 3] ensure_dir_Inr(1) [OF 4] by simp
  from rehydrate_all_nonempty [OF this assms(2), of E] 5 show False by simp
qed

text \<open>
  Such a run, in any environment, neither creates nor changes a file: only the
  create-if-absent blocks of lines 43-50 have run.
\<close>

lemma ensure_dir_any:
  assumes "ensure_dir E p w = (r, w1)"
  shows "c3 w1 = c3 w"
    and "(lookup (disk w1) q = Some (File x)) = (lookup (disk w) q = Some (File x))"
  using assms
  by (auto simp: ensure_dir_eq split: if_splits sum.splits
        dest: makedirs_keeps_file makedirs_no_new_file)

lemma seq_ensure_dir_raises:
  fixes K :: "unit action"
  assumes c: "c3 w0 = Some st"
    and f: "\<forall>q x. (lookup (disk w0) q = Some (File x)) = F q x"
    and K: "\<And>w1. c3 w1 = Some st \<Longrightarrow>
              \<forall>q x. (lookup (disk w1) q = Some (File x)) = F q x \<Longrightarrow>
              fst (K w1) \<noteq> Inr ()
              \<and> (\<forall>q x. (lookup (disk (snd (K w1))) q = Some (File x)) = F q x)"
  shows "fst (seq (ensure_dir E p) (\<lambda>_. K) w0) \<noteq> Inr ()
       \<and> (\<forall>q x. (lookup (disk (snd (seq (ensure_dir E p) (\<lambda>_. K) w0))) q = Some (File x))
                 = F q x)"
proof -
  obtain r w1 where s: "ensure_dir E p w0 = (r, w1)"
    by (cases "ensure_dir E p w0")
  note a = ensure_dir_any [OF s]
  show ?thesis
  proof (cases r)
    case (Inl e)
    with s a(2) f show ?thesis by (simp add: seq_def)
  next
    case (Inr u)
    have "c3 w1 = Some st" using a(1) c by simp
    moreover have "\<forall>q x. (lookup (disk w1) q = Some (File x)) = F q x"
      using a(2) f by simp
    ultimately have "fst (K w1) \<noteq> Inr ()
      \<and> (\<forall>q x. (lookup (disk (snd (K w1))) q = Some (File x)) = F q x)"
      by (rule K)
    with s Inr show ?thesis by (simp add: seq_def)
  qed
qed

lemma initState_nonempty_aug_images_no_write:
  assumes "c3 w = Some st" and "st augImagesKey = Some (PyList (b # bs))"
  shows "fst (initState E w) \<noteq> Inr ()
       \<and> (\<forall>q x. (lookup (disk (snd (initState E w))) q = Some (File x))
                 = (lookup (disk w) q = Some (File x)))"
proof -
  let ?F = "\<lambda>q x. lookup (disk w) q = Some (File x)"
  have last: "fst (seq (rehydrate_all E) (\<lambda>_. write_old_network E) w4) \<noteq> Inr ()
       \<and> (\<forall>q x. (lookup (disk (snd (seq (rehydrate_all E) (\<lambda>_. write_old_network E) w4))) q
                   = Some (File x)) = ?F q x)"
    if "c3 w4 = Some st"
      and "\<forall>q x. (lookup (disk w4) q = Some (File x)) = ?F q x"
    for w4 :: world
  proof -
    from rehydrate_all_nonempty [OF that(1) assms(2), of E]
    obtain e where "rehydrate_all E w4 = (Inl e, w4)" by blast
    with that(2) show ?thesis by (simp add: seq_def)
  qed
  have "fst (seq (ensure_dir E inputRelPath) (\<lambda>_.
                seq (ensure_dir E augRelPath) (\<lambda>_.
                seq (ensure_dir E unaugRelPath) (\<lambda>_.
                seq (ensure_dir E networkRelPath) (\<lambda>_.
                seq (rehydrate_all E) (\<lambda>_. write_old_network E))))) w) \<noteq> Inr ()
       \<and> (\<forall>q x. (lookup (disk (snd (seq (ensure_dir E inputRelPath) (\<lambda>_.
                seq (ensure_dir E augRelPath) (\<lambda>_.
                seq (ensure_dir E unaugRelPath) (\<lambda>_.
                seq (ensure_dir E networkRelPath) (\<lambda>_.
                seq (rehydrate_all E) (\<lambda>_. write_old_network E))))) w))) q = Some (File x))
                 = ?F q x)"
    by (intro seq_ensure_dir_raises [where st = st and F = ?F] last assms(1)) simp_all
  with assms(1) show ?thesis by (simp add: initState_phases)
qed

text \<open>
  Claim C8 says that \<^verbatim>\<open>initState\<close> writes the bytes under \<^verbatim>\<open>network\<close> to the old-network
  file whenever the key is present. With \<^verbatim>\<open>network\<close> present and one entry in
  \<^verbatim>\<open>aug_images\<close>, \<^verbatim>\<open>initState\<close> raises on line 56 and never reaches line 62: the
  old-network file keeps its previous, empty content.
\<close>

theorem initState_network_not_written:
  "fst (initState (ex_env ''/app'' 0)
          (ex_world [augImagesKey \<mapsto> PyList [PyBytes [7]], networkKey \<mapsto> PyBytes [9, 8, 7]]
             (ex_disk [])))
     = Inl TypeError
   \<and> lookup (disk (snd (initState (ex_env ''/app'' 0)
          (ex_world [augImagesKey \<mapsto> PyList [PyBytes [7]], networkKey \<mapsto> PyBytes [9, 8, 7]]
             (ex_disk [])))))
        (resolve ''/app'' (oldNetworkAbsPath ''/app'')) = Some (File [])
   \<and> lookup (disk (snd (initState (ex_env ''/app'' 0)
          (ex_world [augImagesKey \<mapsto> PyList [PyBytes [7]], networkKey \<mapsto> PyBytes [9, 8, 7]]
             (ex_disk [])))))
        (resolve ''/app'' (oldNetworkAbsPath ''/app'')) \<noteq> Some (File [9, 8, 7])"
  by (simp add: program_defs action_defs path_defs ex_defs)

text \<open>
  Claim C5 says that each rehydrated entry is written to a file named by its index followed
  directly by the format, such as \<^verbatim>\<open>0JPEG\<close>. With one entry in \<^verbatim>\<open>aug_images\<close>,
  \<^verbatim>\<open>initState\<close> raises \<^verbatim>\<open>TypeError\<close> while it builds the name on line 56; the file
  system is unchanged and no file \<^verbatim>\<open>0JPEG\<close> exists in the augmented directory.
\<close>

theorem initState_rehydrate_TypeError:
  "fst (initState (ex_env ''/app'' 0)
          (ex_world [augImagesKey \<mapsto> PyList [PyBytes [0xFF, 0xD8]]] (ex_disk [])))
     = Inl TypeError
   \<and> disk (snd (initState (ex_env ''/app'' 0)
          (ex_world [augImagesKey \<mapsto> PyList [PyBytes [0xFF, 0xD8]]] (ex_disk []))))
     = ex_disk []
   \<and> lookup (ex_disk []) [''app'', ''tmp'', ''aug_64x64'', ''0JPEG''] = None"
  by (simp add: program_defs action_defs path_defs ex_defs)

text \<open>
  Claim C4 says that rehydrating \<^verbatim>\<open>aug_images\<close> with \<^verbatim>\<open>initState\<close> and gathering
  again reproduces the byte content. From a state with one augmented image and an empty
  augmented directory, \<^verbatim>\<open>initState\<close> raises \<^verbatim>\<open>TypeError\<close> and changes nothing, and
  \<^verbatim>\<open>gatherState\<close>, run on that world, stores an empty \<^verbatim>\<open>aug_images\<close> list.
\<close>

theorem initState_gatherState_no_round_trip:
  "fst (initState (ex_env ''/app'' 0)
          (ex_world [augImagesKey \<mapsto> PyList [PyBytes [7]], networkKey \<mapsto> PyBytes [1, 2, 3]]
             (ex_disk [])))
     = Inl TypeError
   \<and> snd (initState (ex_env ''/app'' 0)
          (ex_world [augImagesKey \<mapsto> PyList [PyBytes [7]], networkKey \<mapsto> PyBytes [1, 2, 3]]
             (ex_disk [])))
     = ex_world [augImagesKey \<mapsto> PyList [PyBytes [7]], networkKey \<mapsto> PyBytes [1, 2, 3]]
         (ex_disk [])
   \<and> fst (gatherState (ex_env ''/app'' 0)
          (ex_world [augImagesKey \<mapsto> PyList [PyBytes [7]], networkKey \<mapsto> PyBytes [1, 2, 3]]
             (ex_disk [])))
     = Inr ()
   \<and> map_option (\<lambda>st. st augImagesKey)
        (c3 (snd (gatherState (ex_env ''/app'' 0)
          (ex_world [augImagesKey \<mapsto> PyList [PyBytes [7]], networkKey \<mapsto> PyBytes [1, 2, 3]]
             (ex_disk [])))))
     = Some (Some (PyList []))"
  by (simp add: program_defs action_defs path_defs ex_defs)

end
